theory Spec2Isabelle
  imports Main
begin

section \<open>Data model of \<open>tools/download.py\<close>\<close>

text \<open>
  Timestamps (\<open>datetime\<close>) are opaque; only their identity matters here.
\<close>

type_synonym datetime = nat

text \<open>
  The exceptions that occur in the module. All of them are subclasses of Python's
  \<open>Exception\<close>, so both \<open>except Exception\<close> clauses catch every one of them;
  \<open>Exception\<close> stands for an arbitrary other exception (an \<open>OSError\<close>, a network
  error, ...) carrying its text.
\<close>

datatype exn =
    StopIteration
  | KeyError string
  | FileNotFoundError string
  | UnboundLocalError string
  | Exception string

text \<open>\<open>str(e)\<close>: the text of an exception. A \<open>KeyError\<close> prints the repr of its key.\<close>

fun str_exn :: "exn \<Rightarrow> string" where
  "str_exn StopIteration = []"
| "str_exn (KeyError k) = [CHR 0x27] @ k @ [CHR 0x27]"
| "str_exn (FileNotFoundError m) = m"
| "str_exn (UnboundLocalError m) = m"
| "str_exn (Exception m) = m"

text \<open>The dataclass \<open>ConversionStatus\<close> (the Job of the specification).\<close>

record ConversionStatus =
  paper_id :: string
  status :: string
  started_at :: datetime
  completed_at :: "datetime option"
  error :: "string option"

text \<open>
  The attribute assignments the conversion makes on a \<open>ConversionStatus\<close>:
  \<open>status.status = ...\<close>, \<open>status.completed_at = ...\<close> and \<open>status.error = ...\<close>.
\<close>

datatype assignment =
    SetStatus string
  | SetCompletedAt datetime
  | SetError "string option"

fun assign :: "assignment \<Rightarrow> ConversionStatus \<Rightarrow> ConversionStatus" where
  "assign (SetStatus s) st = st\<lparr>status := s\<rparr>"
| "assign (SetCompletedAt t) st = st\<lparr>completed_at := Some t\<rparr>"
| "assign (SetError m) st = st\<lparr>error := m\<rparr>"

text \<open>
  The mutable world the module works on: the global dictionary \<open>conversion_statuses\<close>;
  the files below the storage directory (path to content); the conversions handed to the
  event loop by \<open>asyncio.create_task\<close> that have not started yet; and the worker threads
  that have reached their status update, each with the paper it converts and the
  assignments it still has to make.
\<close>

record world =
  conversion_statuses :: "string \<rightharpoonup> ConversionStatus"
  files :: "string \<rightharpoonup> string"
  tasks :: "string list"
  threads :: "(string \<times> assignment list) list"

text \<open>What \<open>with open(path, "w") as f: f.write(content)\<close> can do.\<close>

datatype write_outcome =
    Written
  | OpenFailed exn
  | WriteFailed string exn

text \<open>
  The external collaborators, as they answer to one call of a function of the module,
  taken as parameters:
  \<^item> the configured storage path, \<open>Path.mkdir(parents=True, exist_ok=True)\<close> on it
    (\<open>None\<close> when it succeeds, else the exception it raises), pathlib's join of the
    storage path with a file name, rendered as a string, and the exception
    \<open>Path.exists()\<close> raises for a path, if any;
  \<^item> the clock;
  \<^item> the HTTP client (\<open>requests.get\<close> followed by \<open>raise_for_status\<close>, yielding
    \<open>response.text\<close>) and \<open>markdownify\<close>;
  \<^item> the file system's answer to a write;
  \<^item> \<open>pymupdf4llm\<close>'s \<open>to_markdown\<close>, which is given the path and reads the files;
  \<^item> the arXiv search (\<open>client.results(arxiv.Search(id_list=[paper_id]))\<close>) and
    \<open>download_pdf\<close>.
\<close>

record env =
  STORAGE_PATH :: string
  mkdir :: "exn option"
  joinpath :: "string \<Rightarrow> string \<Rightarrow> string"
  stat :: "string \<Rightarrow> exn option"
  datetime_now :: datetime
  requests_get :: "string \<Rightarrow> exn + string"
  md :: "string \<Rightarrow> exn + string"
  write_file :: "string \<Rightarrow> string \<Rightarrow> write_outcome"
  to_markdown :: "string \<Rightarrow> (string \<rightharpoonup> string) \<Rightarrow> exn + string"
  arxiv_results :: "string \<Rightarrow> exn + string list"
  download_pdf :: "string \<Rightarrow> exn + string"

section \<open>Storage resolver\<close>

text \<open>
  \<open>get_paper_path\<close> creates the storage directory, which can raise, and joins it with
  \<open>paper_id\<close> and the suffix.
\<close>

definition get_paper_path :: "env \<Rightarrow> string \<Rightarrow> string \<Rightarrow> exn + string" where
  "get_paper_path e pid suffix =
     (case mkdir e of
        Some x \<Rightarrow> Inl x
      | None \<Rightarrow> Inr (joinpath e (STORAGE_PATH e) (pid @ suffix)))"

text \<open>\<open>Path.exists()\<close>: raises, or tells whether the file is there.\<close>

definition path_exists :: "env \<Rightarrow> world \<Rightarrow> string \<Rightarrow> exn + bool" where
  "path_exists e w p =
     (case stat e p of
        Some x \<Rightarrow> Inl x
      | None \<Rightarrow> Inr (files w p \<noteq> None))"

definition open_write :: "env \<Rightarrow> string \<Rightarrow> string \<Rightarrow> world \<Rightarrow> (exn + unit) \<times> world" where
  "open_write e p content w =
     (case write_file e p content of
        Written \<Rightarrow> (Inr (), w\<lparr>files := (files w)(p \<mapsto> content)\<rparr>)
      | OpenFailed x \<Rightarrow> (Inl x, w)
      | WriteFailed partial x \<Rightarrow> (Inl x, w\<lparr>files := (files w)(p \<mapsto> partial)\<rparr>))"

section \<open>Conversion engine\<close>

text \<open>
  A block of statements yields \<open>Inr\<close> when it runs to its end and \<open>Inl x\<close> when it
  raises \<open>x\<close>, together with the world as the block left it.

  The status update \<open>status = conversion_statuses.get(paper_id); if status: ...\<close>: the
  assignments are made, in order, on the Job registered for \<open>paper_id\<close>, and skipped
  when there is none.
\<close>

definition update_status :: "string \<Rightarrow> assignment list \<Rightarrow> world \<Rightarrow> world" where
  "update_status pid as w =
     (case conversion_statuses w pid of
        None \<Rightarrow> w
      | Some st \<Rightarrow>
          w\<lparr>conversion_statuses := (conversion_statuses w)(pid \<mapsto> fold assign as st)\<rparr>)"

text \<open>The assignments of the three status updates (lines 97-98, 127-129, 137-139).\<close>

definition html_success :: "env \<Rightarrow> assignment list" where
  "html_success e = [SetStatus ''success'', SetCompletedAt (datetime_now e)]"

definition pdf_success :: "env \<Rightarrow> assignment list" where
  "pdf_success e = [SetStatus ''success'', SetCompletedAt (datetime_now e), SetError None]"

definition pdf_failure :: "env \<Rightarrow> exn \<Rightarrow> assignment list" where
  "pdf_failure e pdf_e =
     [SetStatus ''error'', SetCompletedAt (datetime_now e), SetError (Some (str_exn pdf_e))]"

text \<open>The outer \<open>try\<close> up to the written file (lines 67-93): the HTML path.\<close>

definition html_fetch_write :: "env \<Rightarrow> string \<Rightarrow> world \<Rightarrow> (exn + unit) \<times> world" where
  "html_fetch_write e pid w =
     (case requests_get e (''https://export.arxiv.org/html/'' @ pid) of
        Inl x \<Rightarrow> (Inl x, w)
      | Inr html_content \<Rightarrow>
          (case md e html_content of
             Inl x \<Rightarrow> (Inl x, w)
           | Inr markdown \<Rightarrow>
               (case get_paper_path e pid ''.md'' of
                  Inl x \<Rightarrow> (Inl x, w)
                | Inr md_path \<Rightarrow> open_write e md_path markdown w)))"

text \<open>The whole body of the outer \<open>try\<close>.\<close>

definition html_to_markdown_try :: "env \<Rightarrow> string \<Rightarrow> world \<Rightarrow> (exn + unit) \<times> world" where
  "html_to_markdown_try e pid w =
     (case html_fetch_write e pid w of
        (Inl x, w1) \<Rightarrow> (Inl x, w1)
      | (Inr u, w1) \<Rightarrow> (Inr (), update_status pid (html_success e) w1))"

text \<open>The inner \<open>try\<close> up to the written file (lines 106-122): the PDF path.\<close>

definition pdf_extract_write :: "env \<Rightarrow> string \<Rightarrow> world \<Rightarrow> (exn + unit) \<times> world" where
  "pdf_extract_write e pid w =
     (case get_paper_path e pid ''.pdf'' of
        Inl x \<Rightarrow> (Inl x, w)
      | Inr pdf_path \<Rightarrow>
          (case path_exists e w pdf_path of
             Inl x \<Rightarrow> (Inl x, w)
           | Inr there \<Rightarrow>
               (if \<not> there then
                  (Inl (FileNotFoundError (''PDF file not found at '' @ pdf_path)), w)
                else
                  (case to_markdown e pdf_path (files w) of
                     Inl x \<Rightarrow> (Inl x, w)
                   | Inr markdown \<Rightarrow>
                       (case get_paper_path e pid ''.md'' of
                          Inl x \<Rightarrow> (Inl x, w)
                        | Inr md_path \<Rightarrow> open_write e md_path markdown w)))))"

text \<open>The whole body of the inner \<open>try\<close>.\<close>

definition pdf_to_markdown_try :: "env \<Rightarrow> string \<Rightarrow> world \<Rightarrow> (exn + unit) \<times> world" where
  "pdf_to_markdown_try e pid w =
     (case pdf_extract_write e pid w of
        (Inl x, w1) \<Rightarrow> (Inl x, w1)
      | (Inr u, w1) \<Rightarrow> (Inr (), update_status pid (pdf_success e) w1))"

text \<open>The handler of the inner \<open>try\<close>: both paths have failed.\<close>

definition pdf_failed :: "env \<Rightarrow> string \<Rightarrow> exn \<Rightarrow> world \<Rightarrow> world" where
  "pdf_failed e pid pdf_e w = update_status pid (pdf_failure e pdf_e) w"

definition convert_pdf_to_markdown :: "env \<Rightarrow> string \<Rightarrow> world \<Rightarrow> (exn + unit) \<times> world" where
  "convert_pdf_to_markdown e pid w =
     (case html_to_markdown_try e pid w of
        (Inr u, w1) \<Rightarrow> (Inr u, w1)
      | (Inl ex, w1) \<Rightarrow>
          (case pdf_to_markdown_try e pid w1 of
             (Inr u, w2) \<Rightarrow> (Inr u, w2)
           | (Inl pdf_e, w2) \<Rightarrow> (Inr (), pdf_failed e pid pdf_e w2)))"

text \<open>
  The same function as a worker thread sees it: everything it does before its status
  update, and the assignments that update then consists of.
\<close>

definition conversion_work :: "env \<Rightarrow> string \<Rightarrow> world \<Rightarrow> assignment list \<times> world" where
  "conversion_work e pid w =
     (case html_fetch_write e pid w of
        (Inr u, w1) \<Rightarrow> (html_success e, w1)
      | (Inl ex, w1) \<Rightarrow>
          (case pdf_extract_write e pid w1 of
             (Inr u, w2) \<Rightarrow> (pdf_success e, w2)
           | (Inl pdf_e, w2) \<Rightarrow> (pdf_failure e pdf_e, w2)))"

section \<open>Orchestrator\<close>

text \<open>
  The values of the \<open>arguments\<close> dictionary. The tool's input schema types
  \<open>paper_id\<close> as a string and \<open>check_status\<close> as a boolean; either key may be
  missing. The code only tests \<open>check_status\<close> for truth, so any scalar is admitted
  there.
\<close>

datatype pyval = PBool bool | PNone | PInt int | PStr string

fun truthy :: "pyval \<Rightarrow> bool" where
  "truthy (PBool b) = b"
| "truthy PNone = False"
| "truthy (PInt i) = (i \<noteq> 0)"
| "truthy (PStr s) = (s \<noteq> [])"

record arguments =
  arg_paper_id :: "string option"
  arg_check_status :: "pyval option"

text \<open>
  The dictionary handed to \<open>json.dumps\<close>, in insertion order; \<open>JTime t\<close> is the
  string \<open>t.isoformat()\<close>. A \<open>TextContent\<close> carries its \<open>type\<close> and that payload.
\<close>

datatype jval = JStr string | JNull | JTime datetime

datatype TextContent = TextContent string "(string \<times> jval) list"

text \<open>\<open>next\<close> on the generator of search results.\<close>

definition py_next :: "exn + 'a list \<Rightarrow> exn + 'a" where
  "py_next r =
     (case r of
        Inl x \<Rightarrow> Inl x
      | Inr [] \<Rightarrow> Inl StopIteration
      | Inr (p # ps) \<Rightarrow> Inr p)"

text \<open>The last part of the \<open>try\<close> body (lines 227-260): start a new download and conversion.\<close>

definition start_download :: "env \<Rightarrow> string \<Rightarrow> world \<Rightarrow> (exn + TextContent list) \<times> world" where
  "start_download e pid w =
     (case get_paper_path e pid ''.pdf'' of
        Inl x \<Rightarrow> (Inl x, w)
      | Inr pdf_path \<Rightarrow>
          (let w1 = w\<lparr>conversion_statuses := (conversion_statuses w)
                       (pid \<mapsto> \<lparr>paper_id = pid, status = ''downloading'',
                                 started_at = datetime_now e, completed_at = None,
                                 error = None\<rparr>)\<rparr>
           in case py_next (arxiv_results e pid) of
                Inl x \<Rightarrow> (Inl x, w1)
              | Inr paper \<Rightarrow>
                  (case download_pdf e paper of
                     Inl x \<Rightarrow> (Inl x, w1)
                   | Inr pdf \<Rightarrow>
                       (let w2 = w1\<lparr>files := (files w1)(pdf_path \<mapsto> pdf)\<rparr>
                        in case conversion_statuses w2 pid of
                             None \<Rightarrow> (Inl (KeyError pid), w2)
                           | Some st \<Rightarrow>
                               (Inr [TextContent ''text''
                                      [(''status'', JStr ''converting''),
                                       (''message'', JStr ''Paper downloaded, conversion started''),
                                       (''started_at'', JTime (started_at st))]],
                                w2\<lparr>conversion_statuses := (conversion_statuses w2)
                                      (pid \<mapsto> st\<lparr>status := ''converting''\<rparr>),
                                    tasks := tasks w2 @ [pid]\<rparr>)))))"

text \<open>
  The answer for a paper whose \<open>.md\<close> file exists (lines 153-164 and 198-209); the path
  is resolved once more for the locator.
\<close>

definition available :: "env \<Rightarrow> string \<Rightarrow> string \<Rightarrow> world \<Rightarrow> (exn + TextContent list) \<times> world" where
  "available e pid message w =
     (case get_paper_path e pid ''.md'' of
        Inl x \<Rightarrow> (Inl x, w)
      | Inr p \<Rightarrow>
          (Inr [TextContent ''text''
                 [(''status'', JStr ''success''),
                  (''message'', JStr message),
                  (''resource_uri'', JStr (''file://'' @ p))]], w))"

text \<open>The status check (lines 149-194).\<close>

definition check_status_only :: "env \<Rightarrow> string \<Rightarrow> world \<Rightarrow> (exn + TextContent list) \<times> world" where
  "check_status_only e pid w =
     (case conversion_statuses w pid of
        None \<Rightarrow>
          (case get_paper_path e pid ''.md'' of
             Inl x \<Rightarrow> (Inl x, w)
           | Inr p \<Rightarrow>
               (case path_exists e w p of
                  Inl x \<Rightarrow> (Inl x, w)
                | Inr there \<Rightarrow>
                    (if there then available e pid ''Paper is ready'' w
                     else
                       (Inr [TextContent ''text''
                              [(''status'', JStr ''unknown''),
                               (''message'', JStr ''No download or conversion in progress'')]],
                        w))))
      | Some st \<Rightarrow>
          (Inr [TextContent ''text''
                 [(''status'', JStr (status st)),
                  (''started_at'', JTime (started_at st)),
                  (''completed_at'',
                     (case completed_at st of None \<Rightarrow> JNull | Some t \<Rightarrow> JTime t)),
                  (''error'', (case error st of None \<Rightarrow> JNull | Some m \<Rightarrow> JStr m)),
                  (''message'', JStr (''Paper conversion '' @ status st))]], w))"

text \<open>The body of the \<open>try\<close> of \<open>handle_download\<close>, once \<open>paper_id\<close> is bound.\<close>

definition handle_download_try ::
  "env \<Rightarrow> string \<Rightarrow> pyval \<Rightarrow> world \<Rightarrow> (exn + TextContent list) \<times> world" where
  "handle_download_try e pid check_status w =
     (if truthy check_status then check_status_only e pid w
      else
        (case get_paper_path e pid ''.md'' of
           Inl x \<Rightarrow> (Inl x, w)
         | Inr p \<Rightarrow>
             (case path_exists e w p of
                Inl x \<Rightarrow> (Inl x, w)
              | Inr there \<Rightarrow>
                  (if there then available e pid ''Paper already available'' w
                   else if conversion_statuses w pid \<noteq> None then
                     (case conversion_statuses w pid of
                        None \<Rightarrow> (Inl (KeyError pid), w)
                      | Some st \<Rightarrow>
                          (Inr [TextContent ''text''
                                 [(''status'', JStr (status st)),
                                  (''message'', JStr (''Paper conversion '' @ status st)),
                                  (''started_at'', JTime (started_at st))]], w))
                   else start_download e pid w))))"

text \<open>
  The two \<open>except\<close> clauses. The first one reads the local variable \<open>paper_id\<close>, which
  is unbound when the exception came from \<open>arguments["paper_id"]\<close>; an exception raised
  inside a handler leaves the function.
\<close>

fun except_clauses :: "string option \<Rightarrow> exn \<Rightarrow> world \<Rightarrow> (exn + TextContent list) \<times> world" where
  "except_clauses None StopIteration w = (Inl (UnboundLocalError ''paper_id''), w)"
| "except_clauses (Some pid) StopIteration w =
     (Inr [TextContent ''text''
            [(''status'', JStr ''error''),
             (''message'', JStr (''Paper '' @ pid @ '' not found on arXiv''))]], w)"
| "except_clauses bound x w =
     (Inr [TextContent ''text''
            [(''status'', JStr ''error''),
             (''message'', JStr (''Error: '' @ str_exn x))]], w)"

text \<open>\<open>arguments.get("check_status", False)\<close>\<close>

definition get_check_status :: "arguments \<Rightarrow> pyval" where
  "get_check_status a = (case arg_check_status a of None \<Rightarrow> PBool False | Some v \<Rightarrow> v)"

definition handle_download :: "env \<Rightarrow> arguments \<Rightarrow> world \<Rightarrow> (exn + TextContent list) \<times> world" where
  "handle_download e a w =
     (case arg_paper_id a of
        None \<Rightarrow> except_clauses None (KeyError ''paper_id'') w
      | Some pid \<Rightarrow>
          (case handle_download_try e pid (get_check_status a) w of
             (Inr r, w1) \<Rightarrow> (Inr r, w1)
           | (Inl x, w1) \<Rightarrow> except_clauses (Some pid) x w1))"

section \<open>Runs of the server\<close>

text \<open>
  The only call of \<open>convert_pdf_to_markdown\<close> in the module is the task created at the
  end of \<open>handle_download\<close>, which runs on a worker thread. \<open>handle_download\<close> contains
  no \<open>await\<close>, so requests do not interleave with each other. A run of the server is a
  sequence of events:
  \<^item> \<open>Call\<close>: a request is handled by \<open>handle_download\<close>;
  \<^item> \<open>Run\<close>: a scheduled conversion does its work up to its status update, where it
    fetches the Job and is left with the assignments to make on it;
  \<^item> \<open>Assign n\<close>: the \<open>n\<close>-th worker thread makes its next assignment.
  Requests and single assignments are the indivisible steps of this model.
\<close>

datatype event = Call env arguments | Run env string | Assign nat

definition run_conversion :: "env \<Rightarrow> string \<Rightarrow> world \<Rightarrow> world" where
  "run_conversion e pid w =
     (case conversion_work e pid (w\<lparr>tasks := remove1 pid (tasks w)\<rparr>) of
        (as, w1) \<Rightarrow>
          (case conversion_statuses w1 pid of
             None \<Rightarrow> w1
           | Some st \<Rightarrow> w1\<lparr>threads := threads w1 @ [(pid, as)]\<rparr>))"

definition next_assignment :: "nat \<Rightarrow> world \<Rightarrow> world" where
  "next_assignment n w =
     (case threads w ! n of
        (pid, []) \<Rightarrow> w\<lparr>threads := take n (threads w) @ drop (Suc n) (threads w)\<rparr>
      | (pid, a # as) \<Rightarrow>
          (update_status pid [a] w)
            \<lparr>threads := (if as = [] then take n (threads w) @ drop (Suc n) (threads w)
                         else (threads w)[n := (pid, as)])\<rparr>)"

fun step :: "event \<Rightarrow> world \<Rightarrow> world" where
  "step (Call e a) w = snd (handle_download e a w)"
| "step (Run e pid) w = (if pid \<in> set (tasks w) then run_conversion e pid w else w)"
| "step (Assign n) w = (if n < length (threads w) then next_assignment n w else w)"

fun run :: "world \<Rightarrow> event list \<Rightarrow> world" where
  "run w [] = w"
| "run w (ev # evs) = run (step ev w) evs"

text \<open>A freshly started process: empty registry, nothing scheduled, any files on disk.\<close>

definition initial :: "(string \<rightharpoonup> string) \<Rightarrow> world" where
  "initial fs = \<lparr>conversion_statuses = Map.empty, files = fs, tasks = [], threads = []\<rparr>"

definition terminal :: "ConversionStatus \<Rightarrow> bool" where
  "terminal st = (status st = ''success'' \<or> status st = ''error'')"

text \<open>A worker thread still has assignments to make on the Job of \<open>pid\<close>.\<close>

definition updating :: "world \<Rightarrow> string \<Rightarrow> bool" where
  "updating w pid = (pid \<in> fst ` set (threads w))"

text \<open>
  The invariant of runs: a conversion is scheduled once, for a Job that is
  \<open>converting\<close> and untouched since; a worker thread works for a registered Job whose
  conversion is no longer scheduled.
\<close>

definition run_inv :: "world \<Rightarrow> bool" where
  "run_inv w =
     (distinct (tasks w) \<and>
      list_all (\<lambda>p. case conversion_statuses w p of
                      None \<Rightarrow> False
                    | Some st \<Rightarrow> status st = ''converting'' \<and> completed_at st = None \<and>
                                error st = None) (tasks w) \<and>
      list_all (\<lambda>(p, as). conversion_statuses w p \<noteq> None \<and> p \<notin> set (tasks w)) (threads w))"

text \<open>
  Observers of a run: the requests that create or replace the Job of \<open>pid\<close>, and the
  requests that schedule a conversion of \<open>pid\<close>; \<open>count_events\<close> counts the events of
  a run at which an observer answers yes.
\<close>

fun creates_job :: "string \<Rightarrow> event \<Rightarrow> world \<Rightarrow> bool" where
  "creates_job pid (Call e a) w =
     (conversion_statuses (snd (handle_download e a w)) pid \<noteq> conversion_statuses w pid)"
| "creates_job pid ev w = False"

fun schedules :: "string \<Rightarrow> event \<Rightarrow> world \<Rightarrow> bool" where
  "schedules pid (Call e a) w =
     (count_list (tasks (snd (handle_download e a w))) pid > count_list (tasks w) pid)"
| "schedules pid ev w = False"

fun count_events :: "(event \<Rightarrow> world \<Rightarrow> bool) \<Rightarrow> world \<Rightarrow> event list \<Rightarrow> nat" where
  "count_events P w [] = 0"
| "count_events P w (ev # evs) = (if P ev w then 1 else 0) + count_events P (step ev w) evs"

section \<open>Concrete inputs\<close>

text \<open>
  Collaborators with fixed answers: the HTML fetch, the PDF extractor and the arXiv search
  answer as given; the storage path is \<open>/papers\<close> and can be created, paths are joined
  with a slash, every existence check and every write goes through, and the clock shows 7.
\<close>

definition demo_env :: "exn + string \<Rightarrow> exn + string \<Rightarrow> exn + string list \<Rightarrow> env" where
  "demo_env html pdf_md results =
     \<lparr>STORAGE_PATH = ''/papers'', mkdir = None, joinpath = (\<lambda>d n. d @ ''/'' @ n),
      stat = (\<lambda>p. None), datetime_now = 7,
      requests_get = (\<lambda>url. html), md = (\<lambda>h. Inr (''# '' @ h)),
      write_file = (\<lambda>p c. Written), to_markdown = (\<lambda>p fs. pdf_md),
      arxiv_results = (\<lambda>i. results), download_pdf = (\<lambda>p. Inr ''%PDF'')\<rparr>"

definition demo_job ::
  "string \<Rightarrow> string \<Rightarrow> datetime option \<Rightarrow> string option \<Rightarrow> ConversionStatus" where
  "demo_job pid s c err =
     \<lparr>paper_id = pid, status = s, started_at = 1, completed_at = c, error = err\<rparr>"

definition demo_world :: "(string \<rightharpoonup> ConversionStatus) \<Rightarrow> (string \<rightharpoonup> string) \<Rightarrow> world" where
  "demo_world reg fs = \<lparr>conversion_statuses = reg, files = fs, tasks = [], threads = []\<rparr>"

definition demo_args :: "string option \<Rightarrow> pyval option \<Rightarrow> arguments" where
  "demo_args pid c = \<lparr>arg_paper_id = pid, arg_check_status = c\<rparr>"

lemmas demo_defs = demo_env_def demo_job_def demo_world_def demo_args_def

lemmas convert_defs = convert_pdf_to_markdown_def html_to_markdown_try_def
  pdf_to_markdown_try_def pdf_failed_def html_fetch_write_def pdf_extract_write_def
  update_status_def html_success_def pdf_success_def pdf_failure_def
  open_write_def get_paper_path_def path_exists_def

lemmas download_defs = handle_download_def handle_download_try_def start_download_def
  check_status_only_def available_def get_check_status_def py_next_def path_exists_def
  get_paper_path_def

lemmas run_defs = initial_def run_conversion_def next_assignment_def conversion_work_def
  updating_def terminal_def

section \<open>Properties of the conversion engine\<close>

lemma update_status_frame:
  "files (update_status pid as w) = files w"
  "tasks (update_status pid as w) = tasks w"
  "threads (update_status pid as w) = threads w"
  by (simp_all add: update_status_def split: option.splits)

lemma update_status_other:
  "q \<noteq> pid \<Longrightarrow> conversion_statuses (update_status pid as w) q = conversion_statuses w q"
  by (simp add: update_status_def split: option.splits)

lemma update_status_no_job:
  "conversion_statuses w pid = None \<Longrightarrow> update_status pid as w = w"
  by (simp add: update_status_def)

lemma update_status_job:
  "conversion_statuses w pid = Some st \<Longrightarrow>
   conversion_statuses (update_status pid as w) pid = Some (fold assign as st)"
  by (simp add: update_status_def)

lemma open_write_frame:
  "conversion_statuses (snd (open_write e p c w)) = conversion_statuses w"
  "tasks (snd (open_write e p c w)) = tasks w"
  "threads (snd (open_write e p c w)) = threads w"
  by (simp_all add: open_write_def split: write_outcome.splits)

lemma html_fetch_write_frame:
  "conversion_statuses (snd (html_fetch_write e pid w)) = conversion_statuses w"
  "tasks (snd (html_fetch_write e pid w)) = tasks w"
  "threads (snd (html_fetch_write e pid w)) = threads w"
  by (simp_all add: html_fetch_write_def open_write_frame split: sum.splits)

lemma pdf_extract_write_frame:
  "conversion_statuses (snd (pdf_extract_write e pid w)) = conversion_statuses w"
  "tasks (snd (pdf_extract_write e pid w)) = tasks w"
  "threads (snd (pdf_extract_write e pid w)) = threads w"
  by (simp_all add: pdf_extract_write_def open_write_frame split: sum.splits)

lemma html_try_raises:
  assumes "html_to_markdown_try e pid w = (Inl x, w1)"
  shows "html_fetch_write e pid w = (Inl x, w1)"
  using assms
  by (cases "html_fetch_write e pid w") (auto simp add: html_to_markdown_try_def split: sum.splits)

lemma html_try_ends:
  assumes "fst (html_to_markdown_try e pid w) = Inr ()"
  shows "fst (html_fetch_write e pid w) = Inr () \<and>
         snd (html_to_markdown_try e pid w) =
           update_status pid (html_success e) (snd (html_fetch_write e pid w))"
  using assms
  by (cases "html_fetch_write e pid w") (auto simp add: html_to_markdown_try_def split: sum.splits)


lemma pdf_try_ends:
  assumes "fst (pdf_to_markdown_try e pid w) = Inr ()"
  shows "fst (pdf_extract_write e pid w) = Inr () \<and>
         snd (pdf_to_markdown_try e pid w) =
           update_status pid (pdf_success e) (snd (pdf_extract_write e pid w))"
  using assms
  by (cases "pdf_extract_write e pid w") (auto simp add: pdf_to_markdown_try_def split: sum.splits)

lemma convert_returns: "fst (convert_pdf_to_markdown e pid w) = Inr ()"
  by (simp add: convert_pdf_to_markdown_def split: prod.splits sum.splits)

text \<open>The function makes exactly the assignments of the worker thread, one after the other.\<close>

lemma convert_as_work:
  "convert_pdf_to_markdown e pid w =
     (Inr (), update_status pid (fst (conversion_work e pid w)) (snd (conversion_work e pid w)))"
proof -
  obtain r1 w1 where h: "html_fetch_write e pid w = (r1, w1)"
    by (cases "html_fetch_write e pid w")
  obtain r2 w2 where p: "pdf_extract_write e pid w1 = (r2, w2)"
    by (cases "pdf_extract_write e pid w1")
  show ?thesis
    using h p
    by (cases r1; cases r2)
      (simp_all add: convert_pdf_to_markdown_def html_to_markdown_try_def
        pdf_to_markdown_try_def conversion_work_def pdf_failed_def)
qed

lemma conversion_work_frame:
  "conversion_statuses (snd (conversion_work e pid w)) = conversion_statuses w"
  "tasks (snd (conversion_work e pid w)) = tasks w"
  "threads (snd (conversion_work e pid w)) = threads w"
proof -
  obtain r1 w1 where h: "html_fetch_write e pid w = (r1, w1)"
    by (cases "html_fetch_write e pid w")
  obtain r2 w2 where p: "pdf_extract_write e pid w1 = (r2, w2)"
    by (cases "pdf_extract_write e pid w1")
  have 1: "conversion_statuses w1 = conversion_statuses w" "tasks w1 = tasks w" "threads w1 = threads w"
    using html_fetch_write_frame[of e pid w] h by simp_all
  have 2: "conversion_statuses w2 = conversion_statuses w" "tasks w2 = tasks w" "threads w2 = threads w"
    using pdf_extract_write_frame[of e pid w1] p 1 by simp_all
  show "conversion_statuses (snd (conversion_work e pid w)) = conversion_statuses w"
    "tasks (snd (conversion_work e pid w)) = tasks w"
    "threads (snd (conversion_work e pid w)) = threads w"
    using h p 1 2 by (simp_all add: conversion_work_def split: sum.splits)
qed

lemma convert_tasks: "tasks (snd (convert_pdf_to_markdown e pid w)) = tasks w"
  by (simp add: convert_as_work update_status_frame conversion_work_frame)

lemma convert_other_jobs:
  "q \<noteq> pid \<Longrightarrow>
   conversion_statuses (snd (convert_pdf_to_markdown e pid w)) q = conversion_statuses w q"
  by (simp add: convert_as_work update_status_other conversion_work_frame)

text \<open>
  C7. When \<open>conversion_statuses\<close> has no entry for \<open>paper_id\<close>, every status update
  in \<open>convert_pdf_to_markdown\<close> is skipped: the conversion runs to its end without
  raising and the registry is left as it was.
\<close>

theorem convert_without_job:
  "conversion_statuses w pid = None \<Longrightarrow>
   fst (convert_pdf_to_markdown e pid w) = Inr () \<and>
   conversion_statuses (snd (convert_pdf_to_markdown e pid w)) = conversion_statuses w"
proof
  show "fst (convert_pdf_to_markdown e pid w) = Inr ()" by (rule convert_returns)
next
  assume nojob: "conversion_statuses w pid = None"
  then have "conversion_statuses (snd (conversion_work e pid w)) pid = None"
    by (simp add: conversion_work_frame)
  then show "conversion_statuses (snd (convert_pdf_to_markdown e pid w)) = conversion_statuses w"
    by (simp add: convert_as_work update_status_no_job conversion_work_frame)
qed

theorem convert_without_job_witness:
  "conversion_statuses (demo_world Map.empty Map.empty) ''2101.00001'' = None \<and>
   fst (convert_pdf_to_markdown (demo_env (Inl (Exception ''timeout'')) (Inr ''text'') (Inr []))
          ''2101.00001'' (demo_world Map.empty Map.empty)) = Inr () \<and>
   conversion_statuses (snd (convert_pdf_to_markdown (demo_env (Inl (Exception ''timeout'')) (Inr ''text'') (Inr []))
          ''2101.00001'' (demo_world Map.empty Map.empty))) = Map.empty"
  using convert_without_job[of "demo_world Map.empty Map.empty" "''2101.00001''"
      "demo_env (Inl (Exception ''timeout'')) (Inr ''text'') (Inr [])"]
  by (simp add: demo_defs)

lemma open_write_files_only:
  "files w = files w' \<Longrightarrow>
   fst (open_write e p c w) = fst (open_write e p c w') \<and>
   files (snd (open_write e p c w)) = files (snd (open_write e p c w'))"
  by (simp add: open_write_def split: write_outcome.splits)

lemma html_fetch_write_files_only:
  assumes "files w = files w'"
  shows "fst (html_fetch_write e pid w) = fst (html_fetch_write e pid w') \<and>
         files (snd (html_fetch_write e pid w)) = files (snd (html_fetch_write e pid w'))"
  by (simp add: html_fetch_write_def open_write_def assms
      split: sum.splits write_outcome.splits)

lemma pdf_extract_write_files_only:
  assumes "files w = files w'"
  shows "fst (pdf_extract_write e pid w) = fst (pdf_extract_write e pid w') \<and>
         files (snd (pdf_extract_write e pid w)) = files (snd (pdf_extract_write e pid w'))"
proof -
  have pe: "path_exists e w p = path_exists e w' p" for p
    by (simp add: path_exists_def assms split: option.splits)
  show ?thesis
    by (simp add: pdf_extract_write_def open_write_def pe assms
        split: sum.splits write_outcome.splits)
qed

lemma conversion_work_files_only:
  assumes "files w = files w'"
  shows "files (snd (conversion_work e pid w)) = files (snd (conversion_work e pid w'))"
proof -
  obtain r1 w1 where h: "html_fetch_write e pid w = (r1, w1)"
    by (cases "html_fetch_write e pid w")
  obtain r1' w1' where h': "html_fetch_write e pid w' = (r1', w1')"
    by (cases "html_fetch_write e pid w'")
  have r1: "r1' = r1" and f1: "files w1 = files w1'"
    using html_fetch_write_files_only[OF assms, of e pid] h h' by simp_all
  obtain r2 w2 where p: "pdf_extract_write e pid w1 = (r2, w2)"
    by (cases "pdf_extract_write e pid w1")
  obtain r2' w2' where p': "pdf_extract_write e pid w1' = (r2', w2')"
    by (cases "pdf_extract_write e pid w1'")
  have r2: "r2' = r2" and f2: "files w2 = files w2'"
    using pdf_extract_write_files_only[OF f1, of e pid] p p' by simp_all
  show ?thesis
    using h h' p p' r1 r2 f1 f2
    by (simp add: conversion_work_def split: sum.splits)
qed

lemma convert_files_only:
  assumes "files w = files w'"
  shows "files (snd (convert_pdf_to_markdown e pid w)) = files (snd (convert_pdf_to_markdown e pid w'))"
  using conversion_work_files_only[OF assms, of e pid]
  by (simp add: convert_as_work update_status_frame)

lemma html_fetch_write_success:
  "fst (html_fetch_write e pid w) = Inr () \<Longrightarrow>
   \<exists>html m p. requests_get e (''https://export.arxiv.org/html/'' @ pid) = Inr html \<and>
            md e html = Inr m \<and> get_paper_path e pid ''.md'' = Inr p \<and>
            files (snd (html_fetch_write e pid w)) p = Some m"
  by (auto simp add: html_fetch_write_def open_write_def
      split: sum.splits write_outcome.splits)

lemma pdf_extract_write_success:
  "fst (pdf_extract_write e pid w) = Inr () \<Longrightarrow>
   \<exists>q m p. get_paper_path e pid ''.pdf'' = Inr q \<and> files w q \<noteq> None \<and>
           to_markdown e q (files w) = Inr m \<and> get_paper_path e pid ''.md'' = Inr p \<and>
           files (snd (pdf_extract_write e pid w)) p = Some m"
  by (auto simp add: pdf_extract_write_def path_exists_def open_write_def
      split: sum.splits write_outcome.splits option.splits if_splits)

text \<open>
  C10. The files a conversion leaves behind do not depend on the registry: replacing the
  registry by any other one gives the same files. When the HTML path runs to its end the
  \<open>.md\<close> file holds the converted HTML; when the HTML path raises and the PDF path runs to
  its end, it holds the text extracted from the PDF. Neither statement assumes a Job.
\<close>

theorem artifact_independent_of_registry:
  "files (snd (convert_pdf_to_markdown e pid (w\<lparr>conversion_statuses := r\<rparr>))) =
     files (snd (convert_pdf_to_markdown e pid w)) \<and>
   (fst (html_to_markdown_try e pid w) = Inr () \<longrightarrow>
      (\<exists>html m p. requests_get e (''https://export.arxiv.org/html/'' @ pid) = Inr html \<and>
                md e html = Inr m \<and> get_paper_path e pid ''.md'' = Inr p \<and>
                files (snd (convert_pdf_to_markdown e pid w)) p = Some m)) \<and>
   (\<forall>ex w1. html_to_markdown_try e pid w = (Inl ex, w1) \<and>
            fst (pdf_to_markdown_try e pid w1) = Inr () \<longrightarrow>
      (\<exists>q m p. get_paper_path e pid ''.pdf'' = Inr q \<and> files w1 q \<noteq> None \<and>
               to_markdown e q (files w1) = Inr m \<and> get_paper_path e pid ''.md'' = Inr p \<and>
               files (snd (convert_pdf_to_markdown e pid w)) p = Some m))"
proof (intro conjI allI impI)
  show "files (snd (convert_pdf_to_markdown e pid (w\<lparr>conversion_statuses := r\<rparr>))) =
        files (snd (convert_pdf_to_markdown e pid w))"
    by (rule convert_files_only) simp
next
  assume ok: "fst (html_to_markdown_try e pid w) = Inr ()"
  then have "snd (convert_pdf_to_markdown e pid w) = snd (html_to_markdown_try e pid w)"
    by (cases "html_to_markdown_try e pid w") (simp add: convert_pdf_to_markdown_def)
  with html_try_ends[OF ok] html_fetch_write_success[of e pid w] show
    "\<exists>html m p. requests_get e (''https://export.arxiv.org/html/'' @ pid) = Inr html \<and>
                md e html = Inr m \<and> get_paper_path e pid ''.md'' = Inr p \<and>
                files (snd (convert_pdf_to_markdown e pid w)) p = Some m"
    by (simp add: update_status_frame)
next
  fix ex w1
  assume a: "html_to_markdown_try e pid w = (Inl ex, w1) \<and> fst (pdf_to_markdown_try e pid w1) = Inr ()"
  then have "snd (convert_pdf_to_markdown e pid w) = snd (pdf_to_markdown_try e pid w1)"
    by (cases "pdf_to_markdown_try e pid w1") (simp add: convert_pdf_to_markdown_def)
  with pdf_try_ends[of e pid w1] pdf_extract_write_success[of e pid w1] a show
    "\<exists>q m p. get_paper_path e pid ''.pdf'' = Inr q \<and> files w1 q \<noteq> None \<and>
               to_markdown e q (files w1) = Inr m \<and> get_paper_path e pid ''.md'' = Inr p \<and>
               files (snd (convert_pdf_to_markdown e pid w)) p = Some m"
    by (simp add: update_status_frame)
qed

theorem artifact_independent_of_registry_witness:
  "fst (html_to_markdown_try (demo_env (Inr ''<h1>T</h1>'') (Inr ''text'') (Inr []))
          ''2101.00001'' (demo_world Map.empty Map.empty)) = Inr () \<and>
   files (snd (convert_pdf_to_markdown (demo_env (Inr ''<h1>T</h1>'') (Inr ''text'') (Inr []))
          ''2101.00001'' (demo_world Map.empty Map.empty))) ''/papers/2101.00001.md'' =
     Some ''# <h1>T</h1>'' \<and>
   html_to_markdown_try (demo_env (Inl (Exception ''timeout'')) (Inr ''text'') (Inr []))
          ''2101.00001'' (demo_world Map.empty [''/papers/2101.00001.pdf'' \<mapsto> ''%PDF'']) =
     (Inl (Exception ''timeout''), demo_world Map.empty [''/papers/2101.00001.pdf'' \<mapsto> ''%PDF'']) \<and>
   fst (pdf_to_markdown_try (demo_env (Inl (Exception ''timeout'')) (Inr ''text'') (Inr []))
          ''2101.00001'' (demo_world Map.empty [''/papers/2101.00001.pdf'' \<mapsto> ''%PDF''])) = Inr () \<and>
   files (snd (convert_pdf_to_markdown (demo_env (Inl (Exception ''timeout'')) (Inr ''text'') (Inr []))
          ''2101.00001'' (demo_world Map.empty [''/papers/2101.00001.pdf'' \<mapsto> ''%PDF''])))
      ''/papers/2101.00001.md'' = Some ''text''"
  using artifact_independent_of_registry[where
      e = "demo_env (Inr ''<h1>T</h1>'') (Inr ''text'') (Inr [])" and pid = "''2101.00001''" and
      w = "demo_world Map.empty Map.empty" and r = Map.empty]
    artifact_independent_of_registry[where
      e = "demo_env (Inl (Exception ''timeout'')) (Inr ''text'') (Inr [])" and pid = "''2101.00001''" and
      w = "demo_world Map.empty [''/papers/2101.00001.pdf'' \<mapsto> ''%PDF'']" and r = Map.empty]
  by (simp add: demo_defs convert_defs)




section \<open>Properties of the orchestrator\<close>

lemma except_clauses_bound:
  "\<exists>payload. fst (except_clauses (Some pid) x w) = Inr [TextContent ''text'' payload]"
  by (cases x) simp_all

lemma except_clauses_world: "snd (except_clauses b x w) = w"
  by (cases "(b, x, w)" rule: except_clauses.cases) simp_all

lemma except_clauses_other:
  "x \<noteq> StopIteration \<Longrightarrow>
   except_clauses b x w =
     (Inr [TextContent ''text''
            [(''status'', JStr ''error''), (''message'', JStr (''Error: '' @ str_exn x))]], w)"
  by (cases "(b, x, w)" rule: except_clauses.cases) simp_all

lemma available_result:
  "available e pid m w = (Inr r, w1) \<Longrightarrow> \<exists>payload. r = [TextContent ''text'' payload]"
  by (auto simp add: available_def split: sum.splits)

lemma available_world: "snd (available e pid m w) = w"
  by (simp add: available_def split: sum.splits)

lemma start_download_result:
  "start_download e pid w = (Inr r, w1) \<Longrightarrow> \<exists>payload. r = [TextContent ''text'' payload]"
  by (auto simp add: start_download_def Let_def split: sum.splits option.splits)

lemma check_status_only_result:
  "check_status_only e pid w = (Inr r, w1) \<Longrightarrow> \<exists>payload. r = [TextContent ''text'' payload]"
  by (auto simp add: check_status_only_def dest: available_result
      split: sum.splits option.splits if_splits)

lemma check_status_only_world: "snd (check_status_only e pid w) = w"
  by (simp add: check_status_only_def available_world split: sum.splits option.splits)

lemma handle_download_try_result:
  "handle_download_try e pid c w = (Inr r, w1) \<Longrightarrow> \<exists>payload. r = [TextContent ''text'' payload]"
  by (auto simp add: handle_download_try_def
      dest: start_download_result available_result check_status_only_result
      split: if_splits option.splits sum.splits)

text \<open>
  C3. For all arguments, collaborators and worlds \<open>handle_download\<close> returns a list of
  one \<open>TextContent\<close> and does not raise. A missing \<open>paper_id\<close> is reported as an
  error result with the text of the \<open>KeyError\<close>, and every exception of the \<open>try\<close> body
  other than \<open>StopIteration\<close> as an error result whose message is \<open>Error: \<close> followed by
  the exception text.
\<close>

theorem handle_download_never_raises:
  "(\<exists>payload. fst (handle_download e a w) = Inr [TextContent ''text'' payload]) \<and>
   (arg_paper_id a = None \<longrightarrow>
      fst (handle_download e a w) =
        Inr [TextContent ''text''
              [(''status'', JStr ''error''),
               (''message'', JStr (''Error: '' @ str_exn (KeyError ''paper_id'')))]]) \<and>
   (\<forall>pid x w1. arg_paper_id a = Some pid \<and>
        handle_download_try e pid (get_check_status a) w = (Inl x, w1) \<and> x \<noteq> StopIteration \<longrightarrow>
      handle_download e a w =
        (Inr [TextContent ''text''
               [(''status'', JStr ''error''), (''message'', JStr (''Error: '' @ str_exn x))]], w1))"
proof (intro conjI allI impI)
  show "\<exists>payload. fst (handle_download e a w) = Inr [TextContent ''text'' payload]"
  proof (cases "arg_paper_id a")
    case None
    then show ?thesis by (simp add: handle_download_def)
  next
    case (Some pid)
    obtain r w1 where t: "handle_download_try e pid (get_check_status a) w = (r, w1)"
      by (cases "handle_download_try e pid (get_check_status a) w")
    show ?thesis
    proof (cases r)
      case (Inl x)
      with Some t except_clauses_bound[of pid x w1] show ?thesis
        by (simp add: handle_download_def)
    next
      case (Inr res)
      with Some t handle_download_try_result[of e pid "get_check_status a" w res w1] show ?thesis
        by (auto simp add: handle_download_def)
    qed
  qed
next
  assume "arg_paper_id a = None"
  then show "fst (handle_download e a w) =
        Inr [TextContent ''text''
              [(''status'', JStr ''error''),
               (''message'', JStr (''Error: '' @ str_exn (KeyError ''paper_id'')))]]"
    by (simp add: handle_download_def)
next
  fix pid x w1
  assume "arg_paper_id a = Some pid \<and>
        handle_download_try e pid (get_check_status a) w = (Inl x, w1) \<and> x \<noteq> StopIteration"
  then show "handle_download e a w =
        (Inr [TextContent ''text''
               [(''status'', JStr ''error''), (''message'', JStr (''Error: '' @ str_exn x))]], w1)"
    by (simp add: handle_download_def except_clauses_other)
qed

theorem handle_download_never_raises_witness:
  "arg_paper_id (demo_args None None) = None \<and>
   fst (handle_download (demo_env (Inr ''h'') (Inr ''t'') (Inr [])) (demo_args None None)
          (demo_world Map.empty Map.empty)) =
     Inr [TextContent ''text''
           [(''status'', JStr ''error''),
            (''message'', JStr (''Error: '' @ [CHR 0x27] @ ''paper_id'' @ [CHR 0x27]))]] \<and>
   arg_paper_id (demo_args (Some ''2101.00001'') None) = Some ''2101.00001'' \<and>
   fst (handle_download_try (demo_env (Inr ''h'') (Inr ''t'') (Inl (Exception ''HTTP 503'')))
          ''2101.00001'' (get_check_status (demo_args (Some ''2101.00001'') None))
          (demo_world Map.empty Map.empty)) = Inl (Exception ''HTTP 503'') \<and>
   fst (handle_download (demo_env (Inr ''h'') (Inr ''t'') (Inl (Exception ''HTTP 503'')))
          (demo_args (Some ''2101.00001'') None) (demo_world Map.empty Map.empty)) =
     Inr [TextContent ''text''
           [(''status'', JStr ''error''), (''message'', JStr ''Error: HTTP 503'')]]"
  using handle_download_never_raises[where
      e = "demo_env (Inr ''h'') (Inr ''t'') (Inr [])" and a = "demo_args None None" and
      w = "demo_world Map.empty Map.empty"]
    handle_download_never_raises[where
      e = "demo_env (Inr ''h'') (Inr ''t'') (Inl (Exception ''HTTP 503''))" and
      a = "demo_args (Some ''2101.00001'') None" and
      w = "demo_world Map.empty Map.empty"]
  by (simp add: demo_defs download_defs)




text \<open>
  C5. A full request for a paper whose \<open>.md\<close> file exists returns
  \<open>Paper already available\<close> with the file's locator, and leaves the registry, the files
  and the scheduled conversions as they were.
\<close>

theorem already_available:
  assumes "arg_paper_id a = Some pid"
    and "\<not> truthy (get_check_status a)"
    and "get_paper_path e pid ''.md'' = Inr p"
    and "path_exists e w p = Inr True"
  shows "handle_download e a w =
           (Inr [TextContent ''text''
                  [(''status'', JStr ''success''),
                   (''message'', JStr ''Paper already available''),
                   (''resource_uri'', JStr (''file://'' @ p))]], w)"
  using assms by (simp add: handle_download_def handle_download_try_def available_def)

theorem already_available_witness:
  "arg_paper_id (demo_args (Some ''2101.00001'') None) = Some ''2101.00001'' \<and>
   \<not> truthy (get_check_status (demo_args (Some ''2101.00001'') None)) \<and>
   get_paper_path (demo_env (Inr ''h'') (Inr ''t'') (Inr [''p''])) ''2101.00001'' ''.md'' =
     Inr ''/papers/2101.00001.md'' \<and>
   path_exists (demo_env (Inr ''h'') (Inr ''t'') (Inr [''p'']))
     (demo_world Map.empty [''/papers/2101.00001.md'' \<mapsto> ''# T'']) ''/papers/2101.00001.md'' =
     Inr True \<and>
   handle_download (demo_env (Inr ''h'') (Inr ''t'') (Inr [''p'']))
     (demo_args (Some ''2101.00001'') None)
     (demo_world Map.empty [''/papers/2101.00001.md'' \<mapsto> ''# T'']) =
     (Inr [TextContent ''text''
            [(''status'', JStr ''success''),
             (''message'', JStr ''Paper already available''),
             (''resource_uri'', JStr ''file:///papers/2101.00001.md'')]],
      demo_world Map.empty [''/papers/2101.00001.md'' \<mapsto> ''# T''])"
  using already_available[where
      e = "demo_env (Inr ''h'') (Inr ''t'') (Inr [''p''])" and
      a = "demo_args (Some ''2101.00001'') None" and
      w = "demo_world Map.empty [''/papers/2101.00001.md'' \<mapsto> ''# T'']" and
      pid = "''2101.00001''" and p = "''/papers/2101.00001.md''"]
  by (simp add: demo_defs get_check_status_def path_exists_def get_paper_path_def)

text \<open>
  C6, as amended. A status check for a paper without a Job never changes the world: no
  Job is created and nothing is downloaded or scheduled. It returns \<open>success\<close> with the
  locator when the existence check of the \<open>.md\<close> file answers yes, \<open>unknown\<close> when it
  answers no, and an error result with the exception text when resolving the path or the
  existence check raises.
\<close>

theorem check_status_without_job:
  assumes "arg_paper_id a = Some pid"
    and "truthy (get_check_status a)"
    and "conversion_statuses w pid = None"
  shows "snd (handle_download e a w) = w \<and>
         (\<forall>p. get_paper_path e pid ''.md'' = Inr p \<and> path_exists e w p = Inr True \<longrightarrow>
            fst (handle_download e a w) =
              Inr [TextContent ''text''
                    [(''status'', JStr ''success''),
                     (''message'', JStr ''Paper is ready''),
                     (''resource_uri'', JStr (''file://'' @ p))]]) \<and>
         (\<forall>p. get_paper_path e pid ''.md'' = Inr p \<and> path_exists e w p = Inr False \<longrightarrow>
            fst (handle_download e a w) =
              Inr [TextContent ''text''
                    [(''status'', JStr ''unknown''),
                     (''message'', JStr ''No download or conversion in progress'')]]) \<and>
         (\<forall>x. x \<noteq> StopIteration \<and>
               (get_paper_path e pid ''.md'' = Inl x \<or>
                (\<exists>p. get_paper_path e pid ''.md'' = Inr p \<and> path_exists e w p = Inl x)) \<longrightarrow>
            fst (handle_download e a w) =
              Inr [TextContent ''text''
                    [(''status'', JStr ''error''),
                     (''message'', JStr (''Error: '' @ str_exn x))]])"
proof (intro conjI allI impI)
  obtain r w1 where t: "handle_download_try e pid (get_check_status a) w = (r, w1)"
    by (cases "handle_download_try e pid (get_check_status a) w")
  then have "w1 = w"
    using assms(2) check_status_only_world[of e pid w] by (simp add: handle_download_try_def)
  with t assms(1) show "snd (handle_download e a w) = w"
    by (cases r) (simp_all add: handle_download_def except_clauses_world)
next
  fix p
  assume "get_paper_path e pid ''.md'' = Inr p \<and> path_exists e w p = Inr True"
  with assms show "fst (handle_download e a w) =
              Inr [TextContent ''text''
                    [(''status'', JStr ''success''),
                     (''message'', JStr ''Paper is ready''),
                     (''resource_uri'', JStr (''file://'' @ p))]]"
    by (simp add: handle_download_def handle_download_try_def check_status_only_def available_def)
next
  fix p
  assume "get_paper_path e pid ''.md'' = Inr p \<and> path_exists e w p = Inr False"
  with assms show "fst (handle_download e a w) =
              Inr [TextContent ''text''
                    [(''status'', JStr ''unknown''),
                     (''message'', JStr ''No download or conversion in progress'')]]"
    by (simp add: handle_download_def handle_download_try_def check_status_only_def)
next
  fix x
  assume x: "x \<noteq> StopIteration \<and>
               (get_paper_path e pid ''.md'' = Inl x \<or>
                (\<exists>p. get_paper_path e pid ''.md'' = Inr p \<and> path_exists e w p = Inl x))"
  then have "handle_download_try e pid (get_check_status a) w = (Inl x, w)"
    using assms by (auto simp add: handle_download_try_def check_status_only_def)
  with x assms(1) show "fst (handle_download e a w) =
              Inr [TextContent ''text''
                    [(''status'', JStr ''error''),
                     (''message'', JStr (''Error: '' @ str_exn x))]]"
    by (simp add: handle_download_def except_clauses_other)
qed

theorem check_status_without_job_witness:
  "handle_download (demo_env (Inr ''h'') (Inr ''t'') (Inr [''p'']))
     (demo_args (Some ''2101.00001'') (Some (PBool True)))
     (demo_world Map.empty [''/papers/2101.00001.md'' \<mapsto> ''# T'']) =
     (Inr [TextContent ''text''
            [(''status'', JStr ''success''),
             (''message'', JStr ''Paper is ready''),
             (''resource_uri'', JStr ''file:///papers/2101.00001.md'')]],
      demo_world Map.empty [''/papers/2101.00001.md'' \<mapsto> ''# T'']) \<and>
   handle_download (demo_env (Inr ''h'') (Inr ''t'') (Inr [''p'']))
     (demo_args (Some ''2101.00001'') (Some (PBool True)))
     (demo_world Map.empty Map.empty) =
     (Inr [TextContent ''text''
            [(''status'', JStr ''unknown''),
             (''message'', JStr ''No download or conversion in progress'')]],
      demo_world Map.empty Map.empty) \<and>
   handle_download
     ((demo_env (Inr ''h'') (Inr ''t'') (Inr [''p'']))
        \<lparr>stat := (\<lambda>p. Some (Exception ''[Errno 36] File name too long''))\<rparr>)
     (demo_args (Some ''2101.00001'') (Some (PBool True)))
     (demo_world Map.empty Map.empty) =
     (Inr [TextContent ''text''
            [(''status'', JStr ''error''),
             (''message'', JStr ''Error: [Errno 36] File name too long'')]],
      demo_world Map.empty Map.empty)"
proof -
  show ?thesis
    using check_status_without_job[where
        e = "demo_env (Inr ''h'') (Inr ''t'') (Inr [''p''])" and
        a = "demo_args (Some ''2101.00001'') (Some (PBool True))" and
        w = "demo_world Map.empty [''/papers/2101.00001.md'' \<mapsto> ''# T'']" and
        pid = "''2101.00001''"]
      check_status_without_job[where
        e = "demo_env (Inr ''h'') (Inr ''t'') (Inr [''p''])" and
        a = "demo_args (Some ''2101.00001'') (Some (PBool True))" and
        w = "demo_world Map.empty Map.empty" and
        pid = "''2101.00001''"]
      check_status_without_job[where
        e = "(demo_env (Inr ''h'') (Inr ''t'') (Inr [''p'']))
               \<lparr>stat := (\<lambda>p. Some (Exception ''[Errno 36] File name too long''))\<rparr>" and
        a = "demo_args (Some ''2101.00001'') (Some (PBool True))" and
        w = "demo_world Map.empty Map.empty" and
        pid = "''2101.00001''"]
    by (simp add: demo_defs download_defs)
qed

text \<open>
  C6 as stated fails: when the storage directory cannot be created, a status check for a
  paper without Job and without artifact is answered with status \<open>error\<close>, not
  \<open>unknown\<close>.
\<close>

theorem check_status_storage_error:
  "files (demo_world Map.empty Map.empty) = Map.empty \<and>
   conversion_statuses (demo_world Map.empty Map.empty) ''2101.00001'' = None \<and>
   fst (handle_download
          ((demo_env (Inr ''h'') (Inr ''t'') (Inr []))
             \<lparr>mkdir := Some (Exception ''[Errno 20] Not a directory: /papers'')\<rparr>)
          (demo_args (Some ''2101.00001'') (Some (PBool True))) (demo_world Map.empty Map.empty)) =
     Inr [TextContent ''text''
           [(''status'', JStr ''error''),
            (''message'', JStr ''Error: [Errno 20] Not a directory: /papers'')]]"
  by (simp add: demo_defs download_defs)

section \<open>Requests and the registry\<close>

lemma start_download_threads: "threads (snd (start_download e pid w)) = threads w"
  by (simp add: start_download_def Let_def split: sum.splits option.splits)

lemma start_download_other_jobs:
  "q \<noteq> pid \<Longrightarrow> conversion_statuses (snd (start_download e pid w)) q = conversion_statuses w q"
  by (simp add: start_download_def Let_def split: sum.splits option.splits)

lemma start_download_job:
  "conversion_statuses (snd (start_download e pid w)) pid = conversion_statuses w pid \<or>
   (\<exists>st. conversion_statuses (snd (start_download e pid w)) pid = Some st \<and>
         (status st = ''downloading'' \<or> status st = ''converting'') \<and>
         completed_at st = None \<and> error st = None)"
  by (simp add: start_download_def Let_def split: sum.splits option.splits)

lemma start_download_tasks:
  "tasks (snd (start_download e pid w)) = tasks w \<or>
   (tasks (snd (start_download e pid w)) = tasks w @ [pid] \<and>
    (\<exists>st. conversion_statuses (snd (start_download e pid w)) pid = Some st \<and>
          status st = ''converting'' \<and> completed_at st = None \<and> error st = None))"
  by (simp add: start_download_def Let_def split: sum.splits option.splits)

text \<open>A request leaves the world as it is, or it starts a download for a paper without Job.\<close>

lemma handle_download_try_cases:
  "snd (handle_download_try e pid c w) = w \<or>
   (conversion_statuses w pid = None \<and>
    snd (handle_download_try e pid c w) = snd (start_download e pid w))"
  by (auto simp add: handle_download_try_def check_status_only_world available_world
      split: sum.splits option.splits)

lemma handle_download_cases:
  "snd (handle_download e a w) = w \<or>
   (\<exists>pid. arg_paper_id a = Some pid \<and> conversion_statuses w pid = None \<and>
          snd (handle_download e a w) = snd (start_download e pid w))"
proof (cases "arg_paper_id a")
  case None
  then show ?thesis by (simp add: handle_download_def except_clauses_world)
next
  case (Some pid)
  obtain r w1 where t: "handle_download_try e pid (get_check_status a) w = (r, w1)"
    by (cases "handle_download_try e pid (get_check_status a) w")
  have w1: "snd (handle_download e a w) = w1"
    using Some t by (cases r) (simp_all add: handle_download_def except_clauses_world)
  have "w1 = w \<or> (conversion_statuses w pid = None \<and> w1 = snd (start_download e pid w))"
    using t handle_download_try_cases[of e pid "get_check_status a" w] by simp
  with w1 Some show ?thesis by auto
qed

lemma handle_download_threads: "threads (snd (handle_download e a w)) = threads w"
  using handle_download_cases[of e a w] by (auto simp add: start_download_threads)

lemma handle_download_keeps_jobs:
  assumes "conversion_statuses w q = Some j"
  shows "conversion_statuses (snd (handle_download e a w)) q = Some j"
proof -
  from handle_download_cases[of e a w] show ?thesis
  proof
    assume "snd (handle_download e a w) = w"
    with assms show ?thesis by simp
  next
    assume "\<exists>pid. arg_paper_id a = Some pid \<and> conversion_statuses w pid = None \<and>
          snd (handle_download e a w) = snd (start_download e pid w)"
    then obtain pid where fresh: "conversion_statuses w pid = None"
      and eq: "snd (handle_download e a w) = snd (start_download e pid w)"
      by blast
    from fresh assms have "q \<noteq> pid" by auto
    with eq assms show ?thesis by (simp add: start_download_other_jobs)
  qed
qed

lemma handle_download_tasks:
  "tasks (snd (handle_download e a w)) = tasks w \<or>
   (\<exists>pid. conversion_statuses w pid = None \<and>
          tasks (snd (handle_download e a w)) = tasks w @ [pid] \<and>
          (\<exists>st. conversion_statuses (snd (handle_download e a w)) pid = Some st \<and>
                status st = ''converting'' \<and> completed_at st = None \<and> error st = None))"
proof -
  from handle_download_cases[of e a w] show ?thesis
  proof
    assume "snd (handle_download e a w) = w"
    then show ?thesis by simp
  next
    assume "\<exists>pid. arg_paper_id a = Some pid \<and> conversion_statuses w pid = None \<and>
          snd (handle_download e a w) = snd (start_download e pid w)"
    then obtain pid where fresh: "conversion_statuses w pid = None"
      and eq: "snd (handle_download e a w) = snd (start_download e pid w)"
      by blast
    from start_download_tasks[of e pid w] show ?thesis
    proof
      assume "tasks (snd (start_download e pid w)) = tasks w"
      with eq show ?thesis by simp
    next
      assume "tasks (snd (start_download e pid w)) = tasks w @ [pid] \<and>
        (\<exists>st. conversion_statuses (snd (start_download e pid w)) pid = Some st \<and>
          status st = ''converting'' \<and> completed_at st = None \<and> error st = None)"
      with eq fresh show ?thesis by auto
    qed
  qed
qed

section \<open>The invariant of runs\<close>

lemma run_inv_iff:
  "run_inv w \<longleftrightarrow>
     distinct (tasks w) \<and>
     (\<forall>p \<in> set (tasks w). \<exists>st. conversion_statuses w p = Some st \<and> status st = ''converting'' \<and>
                                 completed_at st = None \<and> error st = None) \<and>
     (\<forall>p \<in> fst ` set (threads w). conversion_statuses w p \<noteq> None \<and> p \<notin> set (tasks w))"
  by (auto simp add: run_inv_def list_all_iff split: option.splits)

lemma initial_run_inv: "run_inv (initial fs)"
  by (simp add: run_inv_def initial_def)

lemma call_run_inv:
  assumes "run_inv w"
  shows "run_inv (snd (handle_download e a w))"
proof -
  let ?w' = "snd (handle_download e a w)"
  have th: "threads ?w' = threads w" by (rule handle_download_threads)
  have keep: "conversion_statuses ?w' q \<noteq> None" if "conversion_statuses w q \<noteq> None" for q
    using that handle_download_keeps_jobs[of w q _ e a] by auto
  have same: "conversion_statuses ?w' q = conversion_statuses w q"
    if "conversion_statuses w q \<noteq> None" for q
    using that handle_download_keeps_jobs[of w q _ e a] by auto
  from handle_download_tasks[of e a w] show ?thesis
  proof
    assume t: "tasks ?w' = tasks w"
    with assms th show ?thesis
      by (auto simp add: run_inv_iff same keep)
  next
    assume "\<exists>pid. conversion_statuses w pid = None \<and> tasks ?w' = tasks w @ [pid] \<and>
          (\<exists>st. conversion_statuses ?w' pid = Some st \<and>
                status st = ''converting'' \<and> completed_at st = None \<and> error st = None)"
    then obtain pid st where fresh: "conversion_statuses w pid = None"
      and t: "tasks ?w' = tasks w @ [pid]"
      and st: "conversion_statuses ?w' pid = Some st" "status st = ''converting''"
        "completed_at st = None" "error st = None"
      by blast
    from fresh assms have n1: "pid \<notin> set (tasks w)" and n2: "pid \<notin> fst ` set (threads w)"
      by (auto simp add: run_inv_iff)
    have "distinct (tasks ?w')" using t n1 assms by (simp add: run_inv_iff)
    moreover have "\<exists>s. conversion_statuses ?w' p = Some s \<and> status s = ''converting'' \<and>
        completed_at s = None \<and> error s = None" if "p \<in> set (tasks ?w')" for p
    proof (cases "p = pid")
      case True
      with st show ?thesis by simp
    next
      case False
      with that t have "p \<in> set (tasks w)" by simp
      with assms obtain s where "conversion_statuses w p = Some s" "status s = ''converting''"
        "completed_at s = None" "error s = None"
        by (auto simp add: run_inv_iff)
      then show ?thesis using same[of p] by simp
    qed
    moreover have "conversion_statuses ?w' p \<noteq> None \<and> p \<notin> set (tasks ?w')"
      if "p \<in> fst ` set (threads ?w')" for p
    proof -
      from that th have p: "p \<in> fst ` set (threads w)" by simp
      with assms have "conversion_statuses w p \<noteq> None" "p \<notin> set (tasks w)"
        by (auto simp add: run_inv_iff)
      moreover from p n2 have "p \<noteq> pid" by auto
      ultimately show ?thesis using t keep[of p] by simp
    qed
    ultimately show ?thesis by (simp add: run_inv_iff)
  qed
qed

lemma run_conversion_frame:
  "conversion_statuses (run_conversion e pid w) = conversion_statuses w"
  "tasks (run_conversion e pid w) = remove1 pid (tasks w)"
  "fst ` set (threads (run_conversion e pid w)) \<subseteq> insert pid (fst ` set (threads w))"
proof -
  let ?w0 = "w\<lparr>tasks := remove1 pid (tasks w)\<rparr>"
  obtain as w1 where c: "conversion_work e pid ?w0 = (as, w1)"
    by (cases "conversion_work e pid ?w0")
  have f: "conversion_statuses w1 = conversion_statuses w" "tasks w1 = remove1 pid (tasks w)"
    "threads w1 = threads w"
    using conversion_work_frame[of e pid ?w0] c by simp_all
  show "conversion_statuses (run_conversion e pid w) = conversion_statuses w"
    "tasks (run_conversion e pid w) = remove1 pid (tasks w)"
    "fst ` set (threads (run_conversion e pid w)) \<subseteq> insert pid (fst ` set (threads w))"
    using c f by (auto simp add: run_conversion_def split: option.splits)
qed

lemma next_assignment_frame:
  assumes "n < length (threads w)"
  shows "tasks (next_assignment n w) = tasks w"
    and "fst ` set (threads (next_assignment n w)) \<subseteq> fst ` set (threads w)"
    and "q \<noteq> fst (threads w ! n) \<Longrightarrow>
         conversion_statuses (next_assignment n w) q = conversion_statuses w q"
    and "conversion_statuses w q \<noteq> None \<Longrightarrow> conversion_statuses (next_assignment n w) q \<noteq> None"
proof -
  obtain pid as where th: "threads w ! n = (pid, as)" by (cases "threads w ! n")
  have sub: "set (take n (threads w) @ drop (Suc n) (threads w)) \<subseteq> set (threads w)"
    using set_take_subset[of n "threads w"] set_drop_subset[of "Suc n" "threads w"] by auto
  have upd: "fst ` set ((threads w)[n := (pid, as')]) \<subseteq> fst ` set (threads w)" for as'
  proof -
    have "fst ` set ((threads w)[n := (pid, as')]) \<subseteq>
          fst ` insert (pid, as') (set (threads w))"
      by (rule image_mono) (rule set_update_subset_insert)
    moreover have "pid \<in> fst ` set (threads w)"
      using assms th nth_mem[of n "threads w"] by (metis fst_conv image_eqI)
    ultimately show ?thesis by auto
  qed
  show "tasks (next_assignment n w) = tasks w"
    using th by (cases as) (simp_all add: next_assignment_def update_status_frame)
  show "fst ` set (threads (next_assignment n w)) \<subseteq> fst ` set (threads w)"
  proof (cases as)
    case Nil
    with th sub show ?thesis by (auto simp add: next_assignment_def)
  next
    case (Cons a rest)
    with th sub upd[of rest] show ?thesis
      by (cases "rest = []") (auto simp add: next_assignment_def)
  qed
  show "conversion_statuses (next_assignment n w) q = conversion_statuses w q"
    if "q \<noteq> fst (threads w ! n)"
    using th that by (cases as) (simp_all add: next_assignment_def update_status_other)
  show "conversion_statuses (next_assignment n w) q \<noteq> None" if "conversion_statuses w q \<noteq> None"
    using th that
    by (cases as) (auto simp add: next_assignment_def update_status_def split: option.splits)
qed

lemma step_run_inv:
  assumes "run_inv w"
  shows "run_inv (step ev w)"
proof (cases ev)
  case (Call e a)
  with assms show ?thesis by (simp add: call_run_inv)
next
  case (Run e pid)
  show ?thesis
  proof (cases "pid \<in> set (tasks w)")
    case False
    with Run assms show ?thesis by simp
  next
    case True
    have d: "distinct (tasks w)" using assms by (simp add: run_inv_iff)
    from True assms have job: "conversion_statuses w pid \<noteq> None"
      by (auto simp add: run_inv_iff)
    have "run_inv (run_conversion e pid w)"
      unfolding run_inv_iff
    proof (intro conjI ballI)
      show "distinct (tasks (run_conversion e pid w))"
        using d by (simp add: run_conversion_frame)
    next
      fix p assume "p \<in> set (tasks (run_conversion e pid w))"
      then have "p \<in> set (tasks w)" using d by (simp add: run_conversion_frame)
      with assms show "\<exists>st. conversion_statuses (run_conversion e pid w) p = Some st \<and>
          status st = ''converting'' \<and> completed_at st = None \<and> error st = None"
        by (auto simp add: run_inv_iff run_conversion_frame)
    next
      fix p assume "p \<in> fst ` set (threads (run_conversion e pid w))"
      with run_conversion_frame(3)[of e pid w]
      have "p = pid \<or> p \<in> fst ` set (threads w)" by auto
      then show "conversion_statuses (run_conversion e pid w) p \<noteq> None"
        using job assms by (auto simp add: run_inv_iff run_conversion_frame)
    next
      fix p assume "p \<in> fst ` set (threads (run_conversion e pid w))"
      with run_conversion_frame(3)[of e pid w]
      have "p = pid \<or> p \<in> fst ` set (threads w)" by auto
      then show "p \<notin> set (tasks (run_conversion e pid w))"
        using d assms by (auto simp add: run_inv_iff run_conversion_frame)
    qed
    with Run True show ?thesis by simp
  qed
next
  case (Assign n)
  show ?thesis
  proof (cases "n < length (threads w)")
    case False
    with Assign assms show ?thesis by simp
  next
    case True
    let ?w' = "next_assignment n w"
    have own: "fst (threads w ! n) \<in> fst ` set (threads w)"
      using True nth_mem[of n "threads w"] by (metis image_eqI)
    with assms have nt: "fst (threads w ! n) \<notin> set (tasks w)"
      by (auto simp add: run_inv_iff)
    have "run_inv ?w'"
      unfolding run_inv_iff
    proof (intro conjI ballI)
      show "distinct (tasks ?w')"
        using assms True by (simp add: next_assignment_frame run_inv_iff)
    next
      fix p assume "p \<in> set (tasks ?w')"
      then have p: "p \<in> set (tasks w)" using True by (simp add: next_assignment_frame)
      with nt have "p \<noteq> fst (threads w ! n)" by auto
      with p assms True show "\<exists>st. conversion_statuses ?w' p = Some st \<and>
          status st = ''converting'' \<and> completed_at st = None \<and> error st = None"
        by (simp add: next_assignment_frame run_inv_iff)
    next
      fix p assume "p \<in> fst ` set (threads ?w')"
      with next_assignment_frame(2)[OF True] have "p \<in> fst ` set (threads w)" by auto
      with assms have "conversion_statuses w p \<noteq> None" by (auto simp add: run_inv_iff)
      then show "conversion_statuses ?w' p \<noteq> None"
        using True by (rule next_assignment_frame(4)[rotated])
    next
      fix p assume "p \<in> fst ` set (threads ?w')"
      with next_assignment_frame(2)[OF True] have "p \<in> fst ` set (threads w)" by auto
      with assms show "p \<notin> set (tasks ?w')"
        using True by (auto simp add: run_inv_iff next_assignment_frame)
    qed
    with Assign True show ?thesis by simp
  qed
qed

lemma run_append: "run w (evs @ later) = run (run w evs) later"
  by (induction evs arbitrary: w) simp_all

lemma run_run_inv: "run_inv w \<Longrightarrow> run_inv (run w evs)"
  by (induction evs arbitrary: w) (simp_all add: step_run_inv)

section \<open>Jobs in runs\<close>

lemma job_stays_registered:
  assumes "conversion_statuses w pid \<noteq> None"
  shows "conversion_statuses (step ev w) pid \<noteq> None"
proof (cases ev)
  case (Call e a)
  with assms handle_download_keeps_jobs[of w pid _ e a] show ?thesis by auto
next
  case (Run e q)
  with assms show ?thesis by (simp add: run_conversion_frame)
next
  case (Assign n)
  show ?thesis
  proof (cases "n < length (threads w)")
    case True
    from next_assignment_frame(4)[OF True assms] Assign True show ?thesis by simp
  next
    case False
    with Assign assms show ?thesis by simp
  qed
qed

lemma step_keeps_settled:
  assumes inv: "run_inv w" and job: "conversion_statuses w pid = Some st"
    and "terminal st" and idle: "\<not> updating w pid"
  shows "conversion_statuses (step ev w) pid = Some st \<and> \<not> updating (step ev w) pid"
proof (cases ev)
  case (Call e a)
  with job idle show ?thesis
    by (simp add: handle_download_keeps_jobs handle_download_threads updating_def)
next
  case (Run e q)
  show ?thesis
  proof (cases "q \<in> set (tasks w)")
    case False
    with Run job idle show ?thesis by simp
  next
    case True
    with inv obtain s where "conversion_statuses w q = Some s" "status s = ''converting''"
      by (auto simp add: run_inv_iff)
    with job \<open>terminal st\<close> have "q \<noteq> pid" by (auto simp add: terminal_def)
    with idle run_conversion_frame(3)[of e q w] have "\<not> updating (run_conversion e q w) pid"
      by (auto simp add: updating_def)
    with Run True job show ?thesis by (simp add: run_conversion_frame)
  qed
next
  case (Assign n)
  show ?thesis
  proof (cases "n < length (threads w)")
    case False
    with Assign job idle show ?thesis by simp
  next
    case True
    have "fst (threads w ! n) \<in> fst ` set (threads w)"
      using True nth_mem[of n "threads w"] by (metis image_eqI)
    with idle have ne: "pid \<noteq> fst (threads w ! n)" by (auto simp add: updating_def)
    from idle next_assignment_frame(2)[OF True]
    have "\<not> updating (next_assignment n w) pid" by (auto simp add: updating_def)
    with Assign True job ne show ?thesis by (simp add: next_assignment_frame)
  qed
qed

lemma run_keeps_settled:
  "run_inv w \<Longrightarrow> conversion_statuses w pid = Some st \<Longrightarrow> terminal st \<Longrightarrow> \<not> updating w pid \<Longrightarrow>
   conversion_statuses (run w evs) pid = Some st"
proof (induction evs arbitrary: w)
  case Nil
  then show ?case by simp
next
  case (Cons ev evs)
  from step_keeps_settled[OF Cons.prems, of ev] step_run_inv[OF Cons.prems(1), of ev] Cons.prems(3)
  show ?case by (simp add: Cons.IH)
qed

lemma check_status_of_job:
  assumes "arg_paper_id a = Some pid" and "truthy (get_check_status a)"
    and "conversion_statuses w pid = Some st"
  shows "handle_download e a w =
           (Inr [TextContent ''text''
                  [(''status'', JStr (status st)),
                   (''started_at'', JTime (started_at st)),
                   (''completed_at'',
                      (case completed_at st of None \<Rightarrow> JNull | Some t \<Rightarrow> JTime t)),
                   (''error'', (case error st of None \<Rightarrow> JNull | Some m \<Rightarrow> JStr m)),
                   (''message'', JStr (''Paper conversion '' @ status st))]], w)"
  using assms by (simp add: handle_download_def handle_download_try_def check_status_only_def)

text \<open>
  C8, as amended. Taking each request and each assignment of a worker thread as one
  step: \<open>handle_download\<close>, in any mode, changes no field of a Job that is already
  registered. A status check for a registered Job returns the payload read off that Job,
  whatever the collaborators answer, and leaves the world unchanged, so repeating it gives
  the same answer as long as the Job is the same. In every run that starts from an empty
  registry, a Job whose status is \<open>success\<close> or \<open>error\<close> and on which no worker thread
  has assignments left to make is the same after any further events.
\<close>

theorem terminal_jobs_stay:
  "(conversion_statuses w pid = Some st \<longrightarrow>
      conversion_statuses (snd (handle_download e a w)) pid = Some st) \<and>
   (arg_paper_id a = Some pid \<and> truthy (get_check_status a) \<and>
    conversion_statuses w pid = Some st \<longrightarrow>
      handle_download e a w =
        (Inr [TextContent ''text''
               [(''status'', JStr (status st)),
                (''started_at'', JTime (started_at st)),
                (''completed_at'',
                   (case completed_at st of None \<Rightarrow> JNull | Some t \<Rightarrow> JTime t)),
                (''error'', (case error st of None \<Rightarrow> JNull | Some m \<Rightarrow> JStr m)),
                (''message'', JStr (''Paper conversion '' @ status st))]], w)) \<and>
   (conversion_statuses (run (initial fs) evs) pid = Some st \<and> terminal st \<and>
    \<not> updating (run (initial fs) evs) pid \<longrightarrow>
      conversion_statuses (run (initial fs) (evs @ later)) pid = Some st)"
proof (intro conjI impI)
  assume "conversion_statuses w pid = Some st"
  then show "conversion_statuses (snd (handle_download e a w)) pid = Some st"
    by (rule handle_download_keeps_jobs)
next
  assume "arg_paper_id a = Some pid \<and> truthy (get_check_status a) \<and>
    conversion_statuses w pid = Some st"
  then show "handle_download e a w =
        (Inr [TextContent ''text''
               [(''status'', JStr (status st)),
                (''started_at'', JTime (started_at st)),
                (''completed_at'',
                   (case completed_at st of None \<Rightarrow> JNull | Some t \<Rightarrow> JTime t)),
                (''error'', (case error st of None \<Rightarrow> JNull | Some m \<Rightarrow> JStr m)),
                (''message'', JStr (''Paper conversion '' @ status st))]], w)"
    by (simp add: check_status_of_job)
next
  assume a: "conversion_statuses (run (initial fs) evs) pid = Some st \<and> terminal st \<and>
    \<not> updating (run (initial fs) evs) pid"
  have "run_inv (run (initial fs) evs)"
    by (simp add: run_run_inv initial_run_inv)
  with a show "conversion_statuses (run (initial fs) (evs @ later)) pid = Some st"
    by (simp add: run_append run_keeps_settled)
qed

text \<open>
  In the runs of the server a conversion is started once, on the Job \<open>handle_download\<close>
  has just set to \<open>converting\<close>.
\<close>

lemma scheduled_job_fresh:
  assumes "pid \<in> set (tasks (run (initial fs) evs))"
  shows "\<exists>st. conversion_statuses (run (initial fs) evs) pid = Some st \<and>
              status st = ''converting'' \<and> completed_at st = None \<and> error st = None"
proof -
  have "run_inv (run (initial fs) evs)"
    by (simp add: run_run_inv initial_run_inv)
  with assms show ?thesis by (auto simp add: run_inv_iff)
qed

lemma success_updates:
  assumes "error st = None"
  shows "fold assign (html_success e) st =
           st\<lparr>status := ''success'', completed_at := Some (datetime_now e), error := None\<rparr>"
    and "fold assign (pdf_success e) st =
           st\<lparr>status := ''success'', completed_at := Some (datetime_now e), error := None\<rparr>"
  using assms by (cases st; simp add: html_success_def pdf_success_def)+

text \<open>
  C2. Wherever the server runs a conversion, that is for a paper whose conversion
  \<open>handle_download\<close> has scheduled, and either path runs to its end, the Job of the
  paper is the Job as it was with status \<open>success\<close>, \<open>completed_at\<close> set to the current
  time and no error text; the assignments the worker thread makes one by one add up to
  the same Job.
\<close>

theorem conversion_success:
  assumes "w = run (initial fs) evs"
    and "pid \<in> set (tasks w)"
    and "fst (html_to_markdown_try e pid w) = Inr () \<or>
         (\<exists>ex w1. html_to_markdown_try e pid w = (Inl ex, w1) \<and>
                  fst (pdf_to_markdown_try e pid w1) = Inr ())"
  shows "\<exists>st. conversion_statuses w pid = Some st \<and>
              conversion_statuses (snd (convert_pdf_to_markdown e pid w)) pid =
                Some (st\<lparr>status := ''success'', completed_at := Some (datetime_now e),
                         error := None\<rparr>) \<and>
              fold assign (fst (conversion_work e pid w)) st =
                st\<lparr>status := ''success'', completed_at := Some (datetime_now e),
                   error := None\<rparr>"
proof -
  from assms(1,2) scheduled_job_fresh[of pid fs evs] obtain st where
    st: "conversion_statuses w pid = Some st" "error st = None"
    by auto
  have work: "fst (conversion_work e pid w) = html_success e \<or>
              fst (conversion_work e pid w) = pdf_success e"
    using assms(3)
  proof
    assume "fst (html_to_markdown_try e pid w) = Inr ()"
    then have "fst (html_fetch_write e pid w) = Inr ()" by (simp add: html_try_ends)
    then show ?thesis
      by (cases "html_fetch_write e pid w") (simp add: conversion_work_def)
  next
    assume "\<exists>ex w1. html_to_markdown_try e pid w = (Inl ex, w1) \<and>
                  fst (pdf_to_markdown_try e pid w1) = Inr ()"
    then obtain ex w1 where h: "html_to_markdown_try e pid w = (Inl ex, w1)"
      and p: "fst (pdf_to_markdown_try e pid w1) = Inr ()"
      by blast
    have "html_fetch_write e pid w = (Inl ex, w1)" using h by (rule html_try_raises)
    moreover have "fst (pdf_extract_write e pid w1) = Inr ()" using p by (simp add: pdf_try_ends)
    ultimately show ?thesis
      by (cases "pdf_extract_write e pid w1") (simp add: conversion_work_def)
  qed
  then have f: "fold assign (fst (conversion_work e pid w)) st =
      st\<lparr>status := ''success'', completed_at := Some (datetime_now e), error := None\<rparr>"
    using success_updates[OF st(2), of e] by auto
  have "conversion_statuses (snd (conversion_work e pid w)) pid = Some st"
    using st(1) by (simp add: conversion_work_frame)
  then have "conversion_statuses (snd (convert_pdf_to_markdown e pid w)) pid =
      Some (fold assign (fst (conversion_work e pid w)) st)"
    by (simp add: convert_as_work update_status_job)
  with f st(1) show ?thesis by simp
qed

section \<open>One Job and one conversion for a paper\<close>

lemma request_for_registered_job:
  assumes "arg_paper_id a = Some pid"
    and "\<not> truthy (get_check_status a)"
    and "get_paper_path e pid ''.md'' = Inr p"
    and "path_exists e w p = Inr False"
    and "conversion_statuses w pid = Some st"
  shows "handle_download e a w =
           (Inr [TextContent ''text''
                  [(''status'', JStr (status st)),
                   (''message'', JStr (''Paper conversion '' @ status st)),
                   (''started_at'', JTime (started_at st))]], w)"
  using assms by (simp add: handle_download_def handle_download_try_def)

lemma first_request_registers:
  assumes "arg_paper_id a = Some pid"
    and "\<not> truthy (get_check_status a)"
    and "get_paper_path e pid ''.md'' = Inr p"
    and "path_exists e w p = Inr False"
    and "conversion_statuses w pid = None"
  shows "\<exists>st. conversion_statuses (snd (handle_download e a w)) pid = Some st \<and>
              (status st = ''downloading'' \<or> status st = ''converting'')"
proof -
  from assms(3) have "mkdir e = None"
    by (simp add: get_paper_path_def split: option.splits)
  then have pdf: "get_paper_path e pid ''.pdf'' = Inr (joinpath e (STORAGE_PATH e) (pid @ ''.pdf''))"
    by (simp add: get_paper_path_def)
  obtain r w1 where t: "handle_download_try e pid (get_check_status a) w = (r, w1)"
    by (cases "handle_download_try e pid (get_check_status a) w")
  then have sd: "start_download e pid w = (r, w1)"
    using assms by (simp add: handle_download_try_def)
  have "\<exists>st. conversion_statuses w1 pid = Some st \<and>
              (status st = ''downloading'' \<or> status st = ''converting'')"
    using sd pdf by (auto simp add: start_download_def Let_def split: sum.splits)
  moreover have "snd (handle_download e a w) = w1"
    using assms(1) t by (cases r) (simp_all add: handle_download_def except_clauses_world)
  ultimately show ?thesis by simp
qed

lemma no_event_when_registered:
  assumes "conversion_statuses w pid \<noteq> None"
  shows "\<not> creates_job pid ev w" and "\<not> schedules pid ev w"
proof -
  show "\<not> creates_job pid ev w"
    using assms handle_download_keeps_jobs[of w pid]
    by (cases ev) auto
  show "\<not> schedules pid ev w"
  proof (cases ev)
    case (Call e a)
    from handle_download_tasks[of e a w] assms
    have "count_list (tasks (snd (handle_download e a w))) pid = count_list (tasks w) pid"
      by auto
    with Call show ?thesis by simp
  qed simp_all
qed

lemma registered_after_event:
  assumes "creates_job pid ev w \<or> schedules pid ev w"
  shows "conversion_statuses (step ev w) pid \<noteq> None"
proof (cases "conversion_statuses w pid = None")
  case False
  then show ?thesis by (rule job_stays_registered)
next
  case True
  from assms show ?thesis
  proof
    assume "creates_job pid ev w"
    with True show ?thesis by (cases ev) auto
  next
    assume s: "schedules pid ev w"
    then obtain e a where ev: "ev = Call e a" by (cases ev) auto
    with s have more: "count_list (tasks w) pid < count_list (tasks (snd (handle_download e a w))) pid"
      by simp
    from handle_download_tasks[of e a w] more
    obtain q st where "tasks (snd (handle_download e a w)) = tasks w @ [q]"
      and "conversion_statuses (snd (handle_download e a w)) q = Some st"
      by auto
    with more have "conversion_statuses (snd (handle_download e a w)) pid \<noteq> None"
      by (cases "q = pid") auto
    with ev show ?thesis by simp
  qed
qed

lemma no_events_when_registered:
  "conversion_statuses w pid \<noteq> None \<Longrightarrow>
   count_events (creates_job pid) w evs = 0 \<and> count_events (schedules pid) w evs = 0"
proof (induction evs arbitrary: w)
  case Nil
  then show ?case by simp
next
  case (Cons ev evs)
  from Cons.prems have "conversion_statuses (step ev w) pid \<noteq> None"
    by (rule job_stays_registered)
  from Cons.IH[OF this] no_event_when_registered[OF Cons.prems, of ev]
  show ?case by simp
qed

lemma at_most_one_event:
  "count_events (creates_job pid) w evs \<le> 1 \<and> count_events (schedules pid) w evs \<le> 1"
proof (induction evs arbitrary: w)
  case Nil
  then show ?case by simp
next
  case (Cons ev evs)
  show ?case
  proof (cases "creates_job pid ev w \<or> schedules pid ev w")
    case True
    then have "conversion_statuses (step ev w) pid \<noteq> None" by (rule registered_after_event)
    then show ?thesis using no_events_when_registered[of "step ev w" pid evs] by simp
  next
    case False
    with Cons.IH[of "step ev w"] show ?thesis by simp
  qed
qed

text \<open>
  C9. Requests are handled one after the other (\<open>handle_download\<close> has no \<open>await\<close>).
  A first full request for a paper without Job and without artifact leaves a Job in
  state \<open>downloading\<close> or \<open>converting\<close>, and a second full request made on the world
  the first one left, while the artifact is still missing, reports that Job's state and
  start time and changes nothing. More generally a full request that finds a Job and no
  artifact reports the Job and changes nothing: no Job, no download, no conversion. Over
  any sequence of events, at most one request creates (or replaces) the Job of a paper and
  at most one schedules a conversion for it.
\<close>

theorem one_job_per_paper:
  "(arg_paper_id a = Some pid \<and> \<not> truthy (get_check_status a) \<and>
    get_paper_path e pid ''.md'' = Inr p \<and> path_exists e w p = Inr False \<and>
    conversion_statuses w pid = None \<longrightarrow>
      (\<exists>st. conversion_statuses (snd (handle_download e a w)) pid = Some st \<and>
            (status st = ''downloading'' \<or> status st = ''converting'') \<and>
            (\<forall>e2 a2 p2.
                arg_paper_id a2 = Some pid \<and> \<not> truthy (get_check_status a2) \<and>
                get_paper_path e2 pid ''.md'' = Inr p2 \<and>
                path_exists e2 (snd (handle_download e a w)) p2 = Inr False \<longrightarrow>
                handle_download e2 a2 (snd (handle_download e a w)) =
                  (Inr [TextContent ''text''
                         [(''status'', JStr (status st)),
                          (''message'', JStr (''Paper conversion '' @ status st)),
                          (''started_at'', JTime (started_at st))]],
                   snd (handle_download e a w))))) \<and>
   (arg_paper_id a = Some pid \<and> \<not> truthy (get_check_status a) \<and>
    get_paper_path e pid ''.md'' = Inr p \<and> path_exists e w p = Inr False \<and>
    conversion_statuses w pid = Some st \<longrightarrow>
      handle_download e a w =
        (Inr [TextContent ''text''
               [(''status'', JStr (status st)),
                (''message'', JStr (''Paper conversion '' @ status st)),
                (''started_at'', JTime (started_at st))]], w)) \<and>
   count_events (creates_job pid) w evs \<le> 1 \<and>
   count_events (schedules pid) w evs \<le> 1"
proof (intro conjI impI)
  assume first: "arg_paper_id a = Some pid \<and> \<not> truthy (get_check_status a) \<and>
    get_paper_path e pid ''.md'' = Inr p \<and> path_exists e w p = Inr False \<and>
    conversion_statuses w pid = None"
  let ?w1 = "snd (handle_download e a w)"
  from first first_request_registers[of a pid e p w] obtain st where
    st: "conversion_statuses ?w1 pid = Some st"
      "status st = ''downloading'' \<or> status st = ''converting''"
    by blast
  have "handle_download e2 a2 ?w1 =
          (Inr [TextContent ''text''
                 [(''status'', JStr (status st)),
                  (''message'', JStr (''Paper conversion '' @ status st)),
                  (''started_at'', JTime (started_at st))]], ?w1)"
    if "arg_paper_id a2 = Some pid \<and> \<not> truthy (get_check_status a2) \<and>
        get_paper_path e2 pid ''.md'' = Inr p2 \<and> path_exists e2 ?w1 p2 = Inr False"
    for e2 a2 p2
    using that st(1) request_for_registered_job[of a2 pid e2 p2 ?w1 st] by blast
  with st show "\<exists>st. conversion_statuses ?w1 pid = Some st \<and>
            (status st = ''downloading'' \<or> status st = ''converting'') \<and>
            (\<forall>e2 a2 p2.
                arg_paper_id a2 = Some pid \<and> \<not> truthy (get_check_status a2) \<and>
                get_paper_path e2 pid ''.md'' = Inr p2 \<and>
                path_exists e2 ?w1 p2 = Inr False \<longrightarrow>
                handle_download e2 a2 ?w1 =
                  (Inr [TextContent ''text''
                         [(''status'', JStr (status st)),
                          (''message'', JStr (''Paper conversion '' @ status st)),
                          (''started_at'', JTime (started_at st))]], ?w1))"
    by blast
next
  assume "arg_paper_id a = Some pid \<and> \<not> truthy (get_check_status a) \<and>
    get_paper_path e pid ''.md'' = Inr p \<and> path_exists e w p = Inr False \<and>
    conversion_statuses w pid = Some st"
  then show "handle_download e a w =
        (Inr [TextContent ''text''
               [(''status'', JStr (status st)),
                (''message'', JStr (''Paper conversion '' @ status st)),
                (''started_at'', JTime (started_at st))]], w)"
    using request_for_registered_job[of a pid e p w st] by blast
next
  show "count_events (creates_job pid) w evs \<le> 1"
    using at_most_one_event[of pid w evs] by simp
next
  show "count_events (schedules pid) w evs \<le> 1"
    using at_most_one_event[of pid w evs] by simp
qed

section \<open>A concrete run\<close>

lemma demo_run_scheduled:
  "run (initial Map.empty)
     [Call (demo_env (Inr ''<h1>T</h1>'') (Inr ''text'') (Inr [''p'']))
           (demo_args (Some ''2101.00001'') None)] =
   \<lparr>conversion_statuses =
      [''2101.00001'' \<mapsto> (demo_job ''2101.00001'' ''converting'' None None)\<lparr>started_at := 7\<rparr>],
    files = [''/papers/2101.00001.pdf'' \<mapsto> ''%PDF''],
    tasks = [''2101.00001''], threads = []\<rparr>"
  by (simp add: demo_defs run_defs download_defs)

lemma demo_run_status_assigned:
  "run (initial Map.empty)
     [Call (demo_env (Inr ''<h1>T</h1>'') (Inr ''text'') (Inr [''p'']))
           (demo_args (Some ''2101.00001'') None),
      Run (demo_env (Inr ''<h1>T</h1>'') (Inr ''text'') (Inr [''p''])) ''2101.00001'',
      Assign 0] =
   \<lparr>conversion_statuses =
      [''2101.00001'' \<mapsto> (demo_job ''2101.00001'' ''success'' None None)\<lparr>started_at := 7\<rparr>],
    files = [''/papers/2101.00001.pdf'' \<mapsto> ''%PDF'', ''/papers/2101.00001.md'' \<mapsto> ''# <h1>T</h1>''],
    tasks = [], threads = [(''2101.00001'', [SetCompletedAt 7])]\<rparr>"
  by (simp add: demo_defs run_defs download_defs convert_defs)

lemma demo_run_finished:
  "run (initial Map.empty)
     [Call (demo_env (Inr ''<h1>T</h1>'') (Inr ''text'') (Inr [''p'']))
           (demo_args (Some ''2101.00001'') None),
      Run (demo_env (Inr ''<h1>T</h1>'') (Inr ''text'') (Inr [''p''])) ''2101.00001'',
      Assign 0, Assign 0] =
   \<lparr>conversion_statuses =
      [''2101.00001'' \<mapsto> (demo_job ''2101.00001'' ''success'' (Some 7) None)\<lparr>started_at := 7\<rparr>],
    files = [''/papers/2101.00001.pdf'' \<mapsto> ''%PDF'', ''/papers/2101.00001.md'' \<mapsto> ''# <h1>T</h1>''],
    tasks = [], threads = []\<rparr>"
  by (simp add: demo_defs run_defs download_defs convert_defs)

lemma demo_run_later:
  "run \<lparr>conversion_statuses =
          [''2101.00001'' \<mapsto> (demo_job ''2101.00001'' ''success'' (Some 7) None)\<lparr>started_at := 7\<rparr>],
        files = [''/papers/2101.00001.pdf'' \<mapsto> ''%PDF'', ''/papers/2101.00001.md'' \<mapsto> ''# <h1>T</h1>''],
        tasks = [], threads = []\<rparr>
     [Assign 0,
      Run (demo_env (Inl (Exception ''timeout'')) (Inr ''text'') (Inr [])) ''2101.00001'',
      Call (demo_env (Inl (Exception ''timeout'')) (Inr ''text'') (Inr []))
           (demo_args (Some ''2101.00001'') None)] =
   \<lparr>conversion_statuses =
      [''2101.00001'' \<mapsto> (demo_job ''2101.00001'' ''success'' (Some 7) None)\<lparr>started_at := 7\<rparr>],
    files = [''/papers/2101.00001.pdf'' \<mapsto> ''%PDF'', ''/papers/2101.00001.md'' \<mapsto> ''# <h1>T</h1>''],
    tasks = [], threads = []\<rparr>"
  by (simp add: demo_defs download_defs)

text \<open>
  C8 as stated fails: the conversion assigns \<open>status\<close> before \<open>completed_at\<close> (and
  \<open>error\<close>), so a Job whose status is already terminal is still changed by the next
  assignment of the thread that converts it.
\<close>

theorem terminal_job_still_updated:
  "terminal ((demo_job ''2101.00001'' ''success'' None None)\<lparr>started_at := 7\<rparr>) \<and>
   conversion_statuses
     (run (initial Map.empty)
        [Call (demo_env (Inr ''<h1>T</h1>'') (Inr ''text'') (Inr [''p'']))
              (demo_args (Some ''2101.00001'') None),
         Run (demo_env (Inr ''<h1>T</h1>'') (Inr ''text'') (Inr [''p''])) ''2101.00001'',
         Assign 0]) ''2101.00001'' =
     Some ((demo_job ''2101.00001'' ''success'' None None)\<lparr>started_at := 7\<rparr>) \<and>
   conversion_statuses
     (run (initial Map.empty)
        [Call (demo_env (Inr ''<h1>T</h1>'') (Inr ''text'') (Inr [''p'']))
              (demo_args (Some ''2101.00001'') None),
         Run (demo_env (Inr ''<h1>T</h1>'') (Inr ''text'') (Inr [''p''])) ''2101.00001'',
         Assign 0, Assign 0]) ''2101.00001'' =
     Some ((demo_job ''2101.00001'' ''success'' (Some 7) None)\<lparr>started_at := 7\<rparr>) \<and>
   (demo_job ''2101.00001'' ''success'' (Some 7) None)\<lparr>started_at := 7\<rparr> \<noteq>
   (demo_job ''2101.00001'' ''success'' None None)\<lparr>started_at := 7\<rparr>"
  by (simp only: demo_run_status_assigned demo_run_finished) (simp add: demo_defs terminal_def)

theorem terminal_jobs_stay_witness:
  "conversion_statuses
     (run (initial Map.empty)
        [Call (demo_env (Inr ''<h1>T</h1>'') (Inr ''text'') (Inr [''p'']))
              (demo_args (Some ''2101.00001'') None),
         Run (demo_env (Inr ''<h1>T</h1>'') (Inr ''text'') (Inr [''p''])) ''2101.00001'',
         Assign 0, Assign 0])
     ''2101.00001'' = Some ((demo_job ''2101.00001'' ''success'' (Some 7) None)\<lparr>started_at := 7\<rparr>) \<and>
   terminal ((demo_job ''2101.00001'' ''success'' (Some 7) None)\<lparr>started_at := 7\<rparr>) \<and>
   \<not> updating
     (run (initial Map.empty)
        [Call (demo_env (Inr ''<h1>T</h1>'') (Inr ''text'') (Inr [''p'']))
              (demo_args (Some ''2101.00001'') None),
         Run (demo_env (Inr ''<h1>T</h1>'') (Inr ''text'') (Inr [''p''])) ''2101.00001'',
         Assign 0, Assign 0]) ''2101.00001'' \<and>
   conversion_statuses
     (run (initial Map.empty)
        ([Call (demo_env (Inr ''<h1>T</h1>'') (Inr ''text'') (Inr [''p'']))
               (demo_args (Some ''2101.00001'') None),
          Run (demo_env (Inr ''<h1>T</h1>'') (Inr ''text'') (Inr [''p''])) ''2101.00001'',
          Assign 0, Assign 0] @
         [Assign 0,
          Run (demo_env (Inl (Exception ''timeout'')) (Inr ''text'') (Inr [])) ''2101.00001'',
          Call (demo_env (Inl (Exception ''timeout'')) (Inr ''text'') (Inr []))
               (demo_args (Some ''2101.00001'') None)]))
     ''2101.00001'' = Some ((demo_job ''2101.00001'' ''success'' (Some 7) None)\<lparr>started_at := 7\<rparr>) \<and>
   handle_download (demo_env (Inl (Exception ''timeout'')) (Inr ''text'') (Inr []))
     (demo_args (Some ''2101.00001'') (Some (PBool True)))
     (demo_world [''2101.00001'' \<mapsto> (demo_job ''2101.00001'' ''success'' (Some 7) None)\<lparr>started_at := 7\<rparr>]
        Map.empty) =
     (Inr [TextContent ''text''
            [(''status'', JStr ''success''), (''started_at'', JTime 7),
             (''completed_at'', JTime 7), (''error'', JNull),
             (''message'', JStr ''Paper conversion success'')]],
      demo_world [''2101.00001'' \<mapsto> (demo_job ''2101.00001'' ''success'' (Some 7) None)\<lparr>started_at := 7\<rparr>]
        Map.empty)"
  using terminal_jobs_stay[where
      e = "demo_env (Inl (Exception ''timeout'')) (Inr ''text'') (Inr [])" and
      a = "demo_args (Some ''2101.00001'') (Some (PBool True))" and
      w = "demo_world [''2101.00001'' \<mapsto> (demo_job ''2101.00001'' ''success'' (Some 7) None)\<lparr>started_at := 7\<rparr>]
             Map.empty" and
      pid = "''2101.00001''" and
      st = "(demo_job ''2101.00001'' ''success'' (Some 7) None)\<lparr>started_at := 7\<rparr>" and
      fs = Map.empty and
      evs = "[Call (demo_env (Inr ''<h1>T</h1>'') (Inr ''text'') (Inr [''p'']))
                   (demo_args (Some ''2101.00001'') None),
              Run (demo_env (Inr ''<h1>T</h1>'') (Inr ''text'') (Inr [''p''])) ''2101.00001'',
              Assign 0, Assign 0]" and
      later = "[Assign 0,
                Run (demo_env (Inl (Exception ''timeout'')) (Inr ''text'') (Inr [])) ''2101.00001'',
                Call (demo_env (Inl (Exception ''timeout'')) (Inr ''text'') (Inr []))
                     (demo_args (Some ''2101.00001'') None)]"]
  by (simp only: run_append demo_run_finished demo_run_later)
    (simp add: demo_defs terminal_def updating_def get_check_status_def)

theorem conversion_success_witness:
  "''2101.00001'' \<in> set (tasks (run (initial Map.empty)
      [Call (demo_env (Inr ''<h1>T</h1>'') (Inr ''text'') (Inr [''p'']))
            (demo_args (Some ''2101.00001'') None)])) \<and>
   fst (html_to_markdown_try (demo_env (Inr ''<h1>T</h1>'') (Inr ''text'') (Inr [''p'']))
      ''2101.00001''
      (run (initial Map.empty)
        [Call (demo_env (Inr ''<h1>T</h1>'') (Inr ''text'') (Inr [''p'']))
              (demo_args (Some ''2101.00001'') None)])) = Inr () \<and>
   conversion_statuses
     (snd (convert_pdf_to_markdown (demo_env (Inr ''<h1>T</h1>'') (Inr ''text'') (Inr [''p'']))
        ''2101.00001''
        (run (initial Map.empty)
          [Call (demo_env (Inr ''<h1>T</h1>'') (Inr ''text'') (Inr [''p'']))
                (demo_args (Some ''2101.00001'') None)]))) ''2101.00001'' =
     Some ((demo_job ''2101.00001'' ''success'' (Some 7) None)\<lparr>started_at := 7\<rparr>) \<and>
   fst (pdf_to_markdown_try (demo_env (Inl (Exception ''timeout'')) (Inr ''text'') (Inr [''p'']))
      ''2101.00001''
      (run (initial Map.empty)
        [Call (demo_env (Inr ''<h1>T</h1>'') (Inr ''text'') (Inr [''p'']))
              (demo_args (Some ''2101.00001'') None)])) = Inr () \<and>
   conversion_statuses
     (snd (convert_pdf_to_markdown (demo_env (Inl (Exception ''timeout'')) (Inr ''text'') (Inr [''p'']))
        ''2101.00001''
        (run (initial Map.empty)
          [Call (demo_env (Inr ''<h1>T</h1>'') (Inr ''text'') (Inr [''p'']))
                (demo_args (Some ''2101.00001'') None)]))) ''2101.00001'' =
     Some ((demo_job ''2101.00001'' ''success'' (Some 7) None)\<lparr>started_at := 7\<rparr>)"
  using conversion_success[where
      w = "run (initial Map.empty)
             [Call (demo_env (Inr ''<h1>T</h1>'') (Inr ''text'') (Inr [''p'']))
                   (demo_args (Some ''2101.00001'') None)]" and
      fs = Map.empty and
      evs = "[Call (demo_env (Inr ''<h1>T</h1>'') (Inr ''text'') (Inr [''p'']))
                   (demo_args (Some ''2101.00001'') None)]" and
      pid = "''2101.00001''" and
      e = "demo_env (Inr ''<h1>T</h1>'') (Inr ''text'') (Inr [''p''])"]
    conversion_success[where
      w = "run (initial Map.empty)
             [Call (demo_env (Inr ''<h1>T</h1>'') (Inr ''text'') (Inr [''p'']))
                   (demo_args (Some ''2101.00001'') None)]" and
      fs = Map.empty and
      evs = "[Call (demo_env (Inr ''<h1>T</h1>'') (Inr ''text'') (Inr [''p'']))
                   (demo_args (Some ''2101.00001'') None)]" and
      pid = "''2101.00001''" and
      e = "demo_env (Inl (Exception ''timeout'')) (Inr ''text'') (Inr [''p''])"]
  by (simp only: demo_run_scheduled) (simp add: demo_defs convert_defs)

theorem one_job_per_paper_witness:
  "conversion_statuses (initial Map.empty) ''2101.00001'' = None \<and>
   path_exists (demo_env (Inr ''<h1>T</h1>'') (Inr ''text'') (Inr [''p''])) (initial Map.empty)
     ''/papers/2101.00001.md'' = Inr False \<and>
   conversion_statuses
     (snd (handle_download (demo_env (Inr ''<h1>T</h1>'') (Inr ''text'') (Inr [''p'']))
        (demo_args (Some ''2101.00001'') None) (initial Map.empty))) ''2101.00001'' =
     Some ((demo_job ''2101.00001'' ''converting'' None None)\<lparr>started_at := 7\<rparr>) \<and>
   path_exists (demo_env (Inr ''<h1>T</h1>'') (Inr ''text'') (Inr [''p'']))
     (snd (handle_download (demo_env (Inr ''<h1>T</h1>'') (Inr ''text'') (Inr [''p'']))
        (demo_args (Some ''2101.00001'') None) (initial Map.empty)))
     ''/papers/2101.00001.md'' = Inr False \<and>
   handle_download (demo_env (Inr ''<h1>T</h1>'') (Inr ''text'') (Inr [''p'']))
     (demo_args (Some ''2101.00001'') None)
     (snd (handle_download (demo_env (Inr ''<h1>T</h1>'') (Inr ''text'') (Inr [''p'']))
        (demo_args (Some ''2101.00001'') None) (initial Map.empty))) =
     (Inr [TextContent ''text''
            [(''status'', JStr ''converting''),
             (''message'', JStr ''Paper conversion converting''),
             (''started_at'', JTime 7)]],
      snd (handle_download (demo_env (Inr ''<h1>T</h1>'') (Inr ''text'') (Inr [''p'']))
        (demo_args (Some ''2101.00001'') None) (initial Map.empty))) \<and>
   count_events (creates_job ''2101.00001'') (initial Map.empty)
     [Call (demo_env (Inr ''<h1>T</h1>'') (Inr ''text'') (Inr [''p'']))
           (demo_args (Some ''2101.00001'') None),
      Call (demo_env (Inr ''<h1>T</h1>'') (Inr ''text'') (Inr [''p'']))
           (demo_args (Some ''2101.00001'') None)] \<le> 1 \<and>
   count_events (schedules ''2101.00001'') (initial Map.empty)
     [Call (demo_env (Inr ''<h1>T</h1>'') (Inr ''text'') (Inr [''p'']))
           (demo_args (Some ''2101.00001'') None),
      Call (demo_env (Inr ''<h1>T</h1>'') (Inr ''text'') (Inr [''p'']))
           (demo_args (Some ''2101.00001'') None)] \<le> 1"
proof -
  have first: "snd (handle_download (demo_env (Inr ''<h1>T</h1>'') (Inr ''text'') (Inr [''p'']))
        (demo_args (Some ''2101.00001'') None) (initial Map.empty)) =
      \<lparr>conversion_statuses =
         [''2101.00001'' \<mapsto> (demo_job ''2101.00001'' ''converting'' None None)\<lparr>started_at := 7\<rparr>],
       files = [''/papers/2101.00001.pdf'' \<mapsto> ''%PDF''],
       tasks = [''2101.00001''], threads = []\<rparr>"
    using demo_run_scheduled by simp
  show ?thesis
    using one_job_per_paper[where
        a = "demo_args (Some ''2101.00001'') None" and pid = "''2101.00001''" and
        e = "demo_env (Inr ''<h1>T</h1>'') (Inr ''text'') (Inr [''p''])" and
        p = "''/papers/2101.00001.md''" and w = "initial Map.empty" and
        evs = "[Call (demo_env (Inr ''<h1>T</h1>'') (Inr ''text'') (Inr [''p'']))
                     (demo_args (Some ''2101.00001'') None),
                Call (demo_env (Inr ''<h1>T</h1>'') (Inr ''text'') (Inr [''p'']))
                     (demo_args (Some ''2101.00001'') None)]"]
      one_job_per_paper[where
        a = "demo_args (Some ''2101.00001'') None" and pid = "''2101.00001''" and
        e = "demo_env (Inr ''<h1>T</h1>'') (Inr ''text'') (Inr [''p''])" and
        p = "''/papers/2101.00001.md''" and
        w = "snd (handle_download (demo_env (Inr ''<h1>T</h1>'') (Inr ''text'') (Inr [''p'']))
               (demo_args (Some ''2101.00001'') None) (initial Map.empty))" and
        st = "(demo_job ''2101.00001'' ''converting'' None None)\<lparr>started_at := 7\<rparr>" and
        evs = "[]"]
      first
    by (simp add: demo_defs initial_def get_check_status_def get_paper_path_def path_exists_def)
qed

end
